theory Spec2Isabelle
  imports Complex_Main
begin

section \<open>The JavaScript values the forms compute with\<close>

text \<open>
  The form components keep every field as a JavaScript string. A string is modelled as a
  list of 8-bit characters read as the code units U+0000 to U+00FF; text outside that
  range is outside the model. The helpers below are the library functions the components
  call (\<^verbatim>\<open>trim\<close>, \<^verbatim>\<open>split\<close>, \<^verbatim>\<open>includes\<close>, \<^verbatim>\<open>toLowerCase\<close>, \<^verbatim>\<open>Number\<close>,
  \<^verbatim>\<open>RegExp.test\<close>), written out as the ECMAScript standard defines them.
\<close>

subsection \<open>Characters and strings\<close>

definition is_ws :: "char \<Rightarrow> bool" where
  \<comment> \<open>WhiteSpace and LineTerminator: TAB, LF, VT, FF, CR, SP, NBSP.\<close>
  "is_ws c = (of_char c \<in> {9, 10, 11, 12, 13, 32, 160 :: nat})"

definition is_digit :: "char \<Rightarrow> bool" where
  "is_digit c = (48 \<le> (of_char c :: nat) \<and> (of_char c :: nat) \<le> 57)"

definition digit_val :: "char \<Rightarrow> nat" where
  "digit_val c = of_char c - 48"

definition is_upper :: "char \<Rightarrow> bool" where
  "is_upper c = (65 \<le> (of_char c :: nat) \<and> (of_char c :: nat) \<le> 90)"

definition trim :: "string \<Rightarrow> string" where
  "trim s = rev (dropWhile is_ws (rev (dropWhile is_ws s)))"

definition lower_char :: "char \<Rightarrow> char" where
  \<comment> \<open>A to Z, and the Latin-1 capitals U+00C0 to U+00DE except the multiplication sign.\<close>
  "lower_char c =
     (let n = (of_char c :: nat)
      in if (65 \<le> n \<and> n \<le> 90) \<or> (192 \<le> n \<and> n \<le> 222 \<and> n \<noteq> 215)
         then char_of (n + 32) else c)"

definition toLowerCase :: "string \<Rightarrow> string" where
  "toLowerCase s = map lower_char s"

definition upper_char :: "char \<Rightarrow> string" where
  \<comment> \<open>a to z and U+00E0 to U+00FE except the division sign; the sharp s becomes SS. The
      micro sign and y with diaeresis have capitals outside Latin-1 and are kept.\<close>
  "upper_char c =
     (let n = (of_char c :: nat)
      in if (97 \<le> n \<and> n \<le> 122) \<or> (224 \<le> n \<and> n \<le> 254 \<and> n \<noteq> 247)
         then [char_of (n - 32)]
         else if n = 223 then ''SS'' else [c])"

definition toUpperCase :: "string \<Rightarrow> string" where
  "toUpperCase s = concat (map upper_char s)"

fun starts_with :: "string \<Rightarrow> string \<Rightarrow> bool" where
  "starts_with [] s = True"
| "starts_with (p # ps) [] = False"
| "starts_with (p # ps) (c # cs) = (p = c \<and> starts_with ps cs)"

fun str_includes :: "string \<Rightarrow> string \<Rightarrow> bool" where
  \<comment> \<open>\<^verbatim>\<open>s.includes(p)\<close>\<close>
  "str_includes [] p = (p = [])"
| "str_includes (c # cs) p = (starts_with p (c # cs) \<or> str_includes cs p)"

fun split_on :: "(char \<Rightarrow> bool) \<Rightarrow> string \<Rightarrow> string \<Rightarrow> string list" where
  \<comment> \<open>\<^verbatim>\<open>split\<close> on a one-character separator; the second argument is the piece read so far,
      reversed. The empty string splits into one empty piece.\<close>
  "split_on sep cur [] = [rev cur]"
| "split_on sep cur (c # cs) =
     (if sep c then rev cur # split_on sep [] cs else split_on sep (c # cur) cs)"

function split_runs :: "(char \<Rightarrow> bool) \<Rightarrow> string \<Rightarrow> string \<Rightarrow> string list" where
  \<comment> \<open>\<^verbatim>\<open>split\<close> on a regular expression \<^verbatim>\<open>[...]+\<close>: a maximal run of separators separates
      two pieces, so a leading or trailing run leaves an empty first or last piece.\<close>
  "split_runs sep cur [] = [rev cur]"
| "split_runs sep cur (c # cs) =
     (if sep c then rev cur # split_runs sep [] (dropWhile sep cs)
      else split_runs sep (c # cur) cs)"
  by pat_completeness auto
termination
  by (relation "measure (\<lambda>(sep, cur, s). length s)")
     (auto simp: length_dropWhile_le less_Suc_eq_le)

subsection \<open>Regular expressions\<close>

text \<open>
  The patterns of the validators use character classes, sequence, alternation and
  optional parts only. \<^verbatim>\<open>test\<close> is decided by derivatives. A pattern written between
  \<^verbatim>\<open>^\<close> and \<^verbatim>\<open>$\<close> has to match the whole string; one without anchors matches anywhere.
\<close>

datatype rx = Nul | Eps | Sym "char \<Rightarrow> bool" | Seq rx rx | Alt rx rx | Star rx

fun nullable :: "rx \<Rightarrow> bool" where
  "nullable Nul = False"
| "nullable Eps = True"
| "nullable (Sym p) = False"
| "nullable (Seq r s) = (nullable r \<and> nullable s)"
| "nullable (Alt r s) = (nullable r \<or> nullable s)"
| "nullable (Star r) = True"

fun deriv :: "char \<Rightarrow> rx \<Rightarrow> rx" where
  "deriv c Nul = Nul"
| "deriv c Eps = Nul"
| "deriv c (Sym p) = (if p c then Eps else Nul)"
| "deriv c (Seq r s) =
     (if nullable r then Alt (Seq (deriv c r) s) (deriv c s) else Seq (deriv c r) s)"
| "deriv c (Alt r s) = Alt (deriv c r) (deriv c s)"
| "deriv c (Star r) = Seq (deriv c r) (Star r)"

fun matches :: "rx \<Rightarrow> string \<Rightarrow> bool" where
  "matches r [] = nullable r"
| "matches r (c # cs) = matches (deriv c r) cs"

definition Opt :: "rx \<Rightarrow> rx" where
  "Opt r = Alt r Eps"

definition Plus :: "rx \<Rightarrow> rx" where
  "Plus r = Seq r (Star r)"

fun Rep :: "nat \<Rightarrow> rx \<Rightarrow> rx" where
  \<comment> \<open>\<^verbatim>\<open>r{n}\<close>\<close>
  "Rep 0 r = Eps"
| "Rep (Suc n) r = Seq r (Rep n r)"

definition Lit :: "char \<Rightarrow> rx" where
  "Lit c = Sym (\<lambda>x. x = c)"

definition any_char :: "char \<Rightarrow> bool" where
  "any_char c = True"

definition not_ws :: "char \<Rightarrow> bool" where
  \<comment> \<open>\<^verbatim>\<open>\S\<close>\<close>
  "not_ws c = (\<not> is_ws c)"

definition test_anywhere :: "rx \<Rightarrow> string \<Rightarrow> bool" where
  \<comment> \<open>\<^verbatim>\<open>test\<close> of a pattern without anchors.\<close>
  "test_anywhere r s = matches (Seq (Star (Sym any_char)) (Seq r (Star (Sym any_char)))) s"

definition sep_char :: "char \<Rightarrow> bool" where
  \<comment> \<open>\<^verbatim>\<open>[\s.\-]\<close>\<close>
  "sep_char c = (is_ws c \<or> c = CHR ''.'' \<or> c = CHR ''-'')"

definition EMAIL_RE :: rx where
  \<comment> \<open>\<^verbatim>\<open>/\S+@\S+\.\S+/\<close>\<close>
  "EMAIL_RE =
     Seq (Plus (Sym not_ws)) (Seq (Lit CHR ''@'')
       (Seq (Plus (Sym not_ws)) (Seq (Lit CHR ''.'') (Plus (Sym not_ws)))))"

definition US_PHONE_RE :: rx where
  \<comment> \<open>\<^verbatim>\<open>/^(1\s?)?(\(\d{3}\)|\d{3})[\s.\-]?\d{3}[\s.\-]?\d{4}$/\<close>\<close>
  "US_PHONE_RE =
     Seq (Opt (Seq (Lit CHR ''1'') (Opt (Sym is_ws))))
      (Seq (Alt (Seq (Lit CHR ''('') (Seq (Rep 3 (Sym is_digit)) (Lit CHR '')'')))
                (Rep 3 (Sym is_digit)))
       (Seq (Opt (Sym sep_char))
        (Seq (Rep 3 (Sym is_digit))
         (Seq (Opt (Sym sep_char)) (Rep 4 (Sym is_digit))))))"

definition WAITLIST_PHONE_RE :: rx where
  \<comment> \<open>\<^verbatim>\<open>/^\(?(\d{3})\)?[-.\s]?(\d{3})[-.\s]?(\d{4})$/\<close>\<close>
  "WAITLIST_PHONE_RE =
     Seq (Opt (Lit CHR ''(''))
      (Seq (Rep 3 (Sym is_digit))
       (Seq (Opt (Lit CHR '')''))
        (Seq (Opt (Sym sep_char))
         (Seq (Rep 3 (Sym is_digit))
          (Seq (Opt (Sym sep_char)) (Rep 4 (Sym is_digit)))))))"

definition STATE_RE :: rx where
  \<comment> \<open>\<^verbatim>\<open>/^[A-Z]{2}$/\<close>\<close>
  "STATE_RE = Rep 2 (Sym is_upper)"

definition ZIP_RE :: rx where
  \<comment> \<open>\<^verbatim>\<open>/^\d{5}(-\d{4})?$/\<close>\<close>
  "ZIP_RE = Seq (Rep 5 (Sym is_digit)) (Opt (Seq (Lit CHR ''-'') (Rep 4 (Sym is_digit))))"

definition NCPDP_RE :: rx where
  \<comment> \<open>\<^verbatim>\<open>/^\d{7}$/\<close>\<close>
  "NCPDP_RE = Rep 7 (Sym is_digit)"

subsection \<open>Numbers\<close>

text \<open>
  \<^verbatim>\<open>Number(s)\<close> reads a string by the StringNumericLiteral grammar. A finite result is kept
  as the exact rational value of the literal: the rounding to a double is not modelled,
  and it cannot turn a number into \<^verbatim>\<open>NaN\<close> or back.
\<close>

datatype jsnum = NaN | Num rat | PosInf | NegInf

definition isNaN :: "jsnum \<Rightarrow> bool" where
  "isNaN x = (x = NaN)"

definition digits_val :: "string \<Rightarrow> nat" where
  "digits_val s = foldl (\<lambda>a c. 10 * a + digit_val c) 0 s"

definition hex_val :: "char \<Rightarrow> nat option" where
  "hex_val c =
     (let n = (of_char c :: nat)
      in if 48 \<le> n \<and> n \<le> 57 then Some (n - 48)
         else if 65 \<le> n \<and> n \<le> 70 then Some (n - 55)
         else if 97 \<le> n \<and> n \<le> 102 then Some (n - 87)
         else None)"

definition radix_literal :: "nat \<Rightarrow> string \<Rightarrow> jsnum" where
  \<comment> \<open>The digits after \<^verbatim>\<open>0x\<close>, \<^verbatim>\<open>0o\<close> or \<^verbatim>\<open>0b\<close>: at least one, each below the radix.\<close>
  "radix_literal b s =
     (if s \<noteq> [] \<and> list_all (\<lambda>c. case hex_val c of None \<Rightarrow> False | Some d \<Rightarrow> d < b) s
      then Num (of_nat (foldl (\<lambda>a c. b * a + the (hex_val c)) 0 s))
      else NaN)"

definition exponent_part :: "string \<Rightarrow> int option" where
  \<comment> \<open>Nothing, or \<^verbatim>\<open>e\<close> or \<^verbatim>\<open>E\<close>, an optional sign and at least one digit.\<close>
  "exponent_part s =
     (case s of
        [] \<Rightarrow> Some 0
      | c # r \<Rightarrow>
          if c = CHR ''e'' \<or> c = CHR ''E'' then
            (let (neg, ds) =
               (case r of
                  [] \<Rightarrow> (False, [])
                | x # xs \<Rightarrow>
                    if x = CHR ''-'' then (True, xs)
                    else if x = CHR ''+'' then (False, xs) else (False, r))
             in if ds \<noteq> [] \<and> list_all is_digit ds
                then Some (if neg then - int (digits_val ds) else int (digits_val ds))
                else None)
          else None)"

definition unsigned_decimal :: "string \<Rightarrow> jsnum" where
  \<comment> \<open>StrUnsignedDecimalLiteral: \<^verbatim>\<open>Infinity\<close>, or digits with an optional fraction and
      exponent, with a digit before or after the point.\<close>
  "unsigned_decimal s =
     (if s = ''Infinity'' then PosInf
      else
        let ip = takeWhile is_digit s;
            r1 = dropWhile is_digit s;
            dot = (r1 \<noteq> [] \<and> hd r1 = CHR ''.'');
            fp = (if dot then takeWhile is_digit (tl r1) else []);
            r2 = (if dot then dropWhile is_digit (tl r1) else r1)
        in if ip = [] \<and> fp = [] then NaN
           else
             (case exponent_part r2 of
                None \<Rightarrow> NaN
              | Some e \<Rightarrow>
                  Num ((of_nat (digits_val ip) + of_nat (digits_val fp) / 10 ^ length fp)
                       * (if 0 \<le> e then 10 ^ nat e else 1 / 10 ^ nat (- e)))))"

definition negate :: "jsnum \<Rightarrow> jsnum" where
  "negate x = (case x of NaN \<Rightarrow> NaN | Num q \<Rightarrow> Num (- q) | PosInf \<Rightarrow> NegInf | NegInf \<Rightarrow> PosInf)"

definition numeric_literal :: "string \<Rightarrow> jsnum" where
  "numeric_literal s =
     (if starts_with ''0x'' s \<or> starts_with ''0X'' s then radix_literal 16 (drop 2 s)
      else if starts_with ''0o'' s \<or> starts_with ''0O'' s then radix_literal 8 (drop 2 s)
      else if starts_with ''0b'' s \<or> starts_with ''0B'' s then radix_literal 2 (drop 2 s)
      else if starts_with ''-'' s then negate (unsigned_decimal (tl s))
      else if starts_with ''+'' s then unsigned_decimal (tl s)
      else unsigned_decimal s)"

definition Number :: "string \<Rightarrow> jsnum" where
  \<comment> \<open>Surrounding white space is dropped; the empty string is 0.\<close>
  "Number s = (let t = trim s in if t = [] then Num 0 else numeric_literal t)"

subsection \<open>Dates\<close>

text \<open>
  A \<^verbatim>\<open>Date\<close> is its time value in milliseconds, or nothing for an invalid date. The
  validators build dates from local calendar fields and compare them with the clock, so
  time values are kept on the local time line (the offset of the time zone is taken as
  constant between the instants compared). \<^verbatim>\<open>DayFromYear\<close> and \<^verbatim>\<open>MakeDay\<close> are the
  functions of the ECMAScript standard, with months counted from 0.
\<close>

definition msPerDay :: int where
  "msPerDay = 86400000"

definition DayFromYear :: "int \<Rightarrow> int" where
  "DayFromYear y =
     365 * (y - 1970) + (y - 1969) div 4 - (y - 1901) div 100 + (y - 1601) div 400"

definition InLeapYear :: "int \<Rightarrow> bool" where
  "InLeapYear y = ((y mod 4 = 0 \<and> y mod 100 \<noteq> 0) \<or> y mod 400 = 0)"

definition month_start :: "bool \<Rightarrow> int \<Rightarrow> int" where
  \<comment> \<open>The day within the year on which month \<open>m\<close> (0 to 11) starts.\<close>
  "month_start leap m =
     [0, 31, 59, 90, 120, 151, 181, 212, 243, 273, 304, 334] ! nat m
     + (if leap \<and> 2 \<le> m then 1 else 0)"

definition MakeDay :: "int \<Rightarrow> int \<Rightarrow> int \<Rightarrow> int" where
  "MakeDay yr m dt =
     (let ym = yr + m div 12; mn = m mod 12
      in DayFromYear ym + month_start (InLeapYear ym) mn + dt - 1)"

definition TimeClip :: "int \<Rightarrow> int option" where
  "TimeClip t = (if 8640000000000000 < \<bar>t\<bar> then None else Some t)"

definition to_integer :: "jsnum \<Rightarrow> int option" where
  \<comment> \<open>ToIntegerOrInfinity of a finite number: truncation towards zero.\<close>
  "to_integer x =
     (case x of Num q \<Rightarrow> Some (if 0 \<le> q then \<lfloor>q\<rfloor> else \<lceil>q\<rceil>) | _ \<Rightarrow> None)"

definition new_Date :: "jsnum \<Rightarrow> jsnum \<Rightarrow> jsnum \<Rightarrow> int option" where
  \<comment> \<open>\<^verbatim>\<open>new Date(year, month, date)\<close>: a year from 0 to 99 means 1900 + year; a field that
      is not a finite number makes the date invalid.\<close>
  "new_Date y m dt =
     (case (to_integer y, to_integer m, to_integer dt) of
        (Some yi, Some mi, Some di) \<Rightarrow>
          TimeClip (MakeDay (if 0 \<le> yi \<and> yi \<le> 99 then 1900 + yi else yi) mi di * msPerDay)
      | _ \<Rightarrow> None)"

definition date_gt :: "int option \<Rightarrow> int option \<Rightarrow> bool" where
  \<comment> \<open>\<^verbatim>\<open>a > b\<close> on dates: false when either is invalid.\<close>
  "date_gt a b = (case (a, b) of (Some x, Some y) \<Rightarrow> y < x | _ \<Rightarrow> False)"

definition date_lt :: "int option \<Rightarrow> int option \<Rightarrow> bool" where
  "date_lt a b = date_gt b a"

record clock =
  now_year :: int   \<comment> \<open>\<^verbatim>\<open>new Date().getFullYear()\<close>\<close>
  now_month :: int   \<comment> \<open>\<^verbatim>\<open>getMonth()\<close>, 0 to 11\<close>
  now_date :: int   \<comment> \<open>\<^verbatim>\<open>getDate()\<close>, 1 to 31\<close>
  now_ms :: int   \<comment> \<open>milliseconds since local midnight\<close>
  now_iso :: string   \<comment> \<open>\<^verbatim>\<open>new Date().toISOString()\<close>\<close>
  now_epoch :: nat   \<comment> \<open>\<^verbatim>\<open>Date.now()\<close>\<close>

definition today :: "clock \<Rightarrow> int option" where
  \<comment> \<open>\<^verbatim>\<open>const today = new Date(); today.setHours(0, 0, 0, 0)\<close>\<close>
  "today now = TimeClip (MakeDay (now_year now) (now_month now) (now_date now) * msPerDay)"

definition twoYearsAgo :: "clock \<Rightarrow> int option" where
  \<comment> \<open>\<^verbatim>\<open>const twoYearsAgo = new Date(); twoYearsAgo.setFullYear(twoYearsAgo.getFullYear() - 2)\<close>:
      the time of day stays what the clock reads.\<close>
  "twoYearsAgo now =
     TimeClip (MakeDay (now_year now - 2) (now_month now) (now_date now) * msPerDay + now_ms now)"

definition nth_num :: "jsnum list \<Rightarrow> nat \<Rightarrow> jsnum" where
  \<comment> \<open>An element used as a number: a missing one is \<^verbatim>\<open>undefined\<close>, which is \<^verbatim>\<open>NaN\<close>.\<close>
  "nth_num xs i = (if i < length xs then xs ! i else NaN)"

definition minus_one :: "jsnum \<Rightarrow> jsnum" where
  "minus_one x = (case x of Num q \<Rightarrow> Num (q - 1) | _ \<Rightarrow> x)"

definition dateParts :: "string \<Rightarrow> jsnum list" where
  \<comment> \<open>\<^verbatim>\<open>s.split('-').map(Number)\<close>\<close>
  "dateParts s = map Number (split_on (\<lambda>c. c = CHR ''-'') [] s)"

definition selectedDate :: "string \<Rightarrow> int option" where
  \<comment> \<open>\<^verbatim>\<open>new Date(dateParts[0], dateParts[1] - 1, dateParts[2])\<close>\<close>
  "selectedDate s =
     (let p = dateParts s in new_Date (nth_num p 0) (minus_one (nth_num p 1)) (nth_num p 2))"

section \<open>What the forms share\<close>

datatype status = Idle | Submitting | Success | Error

type_synonym errors = "(string \<times> string) list"

fun set_err :: "string \<Rightarrow> string \<Rightarrow> errors \<Rightarrow> errors" where
  \<comment> \<open>\<^verbatim>\<open>newErrors[field] = message\<close>: a second assignment to a field replaces the first.\<close>
  "set_err k v [] = [(k, v)]"
| "set_err k v ((k', v') # es) = (if k' = k then (k, v) # es else (k', v') # set_err k v es)"

definition has_errors :: "errors \<Rightarrow> bool" where
  \<comment> \<open>\<^verbatim>\<open>Object.keys(validationErrors).length > 0\<close>\<close>
  "has_errors es = (es \<noteq> [])"

text \<open>
  A validator is a sequence of statements, each of which assigns at most the error of
  one field. Each statement is a function from the errors assigned so far to the errors
  after it, and the validator applies them in the order of the source.
\<close>

definition required :: "string \<Rightarrow> string \<Rightarrow> string \<Rightarrow> errors \<Rightarrow> errors" where
  \<comment> \<open>\<^verbatim>\<open>if (!value.trim()) newErrors[field] = message\<close>\<close>
  "required v field message es = (if trim v = [] then set_err field message es else es)"

definition at_most :: "nat \<Rightarrow> string \<Rightarrow> string \<Rightarrow> string \<Rightarrow> errors \<Rightarrow> errors" where
  \<comment> \<open>\<^verbatim>\<open>if (value.trim().length > n) newErrors[field] = message\<close>\<close>
  "at_most n v field message es =
     (if n < length (trim v) then set_err field message es else es)"

definition us_phone :: "string \<Rightarrow> string \<Rightarrow> string \<Rightarrow> errors \<Rightarrow> errors" where
  \<comment> \<open>\<^verbatim>\<open>if (!value.trim()) ... else if (!US_PHONE.test(value)) ...\<close>\<close>
  "us_phone v field message es =
     (if trim v = [] then set_err field message es
      else if matches US_PHONE_RE v then es
      else set_err field ''Please enter a valid US phone number.'' es)"

definition email_required :: "string \<Rightarrow> errors \<Rightarrow> errors" where
  \<comment> \<open>\<^verbatim>\<open>if (!email.trim()) ... else if (!EMAIL.test(email)) ...\<close>\<close>
  "email_required v es =
     (if trim v = [] then set_err ''email'' ''Email address is required.'' es
      else if test_anywhere EMAIL_RE v then es
      else set_err ''email'' ''Please enter a valid email address.'' es)"

definition consent_given :: "bool \<Rightarrow> string \<Rightarrow> errors \<Rightarrow> errors" where
  \<comment> \<open>\<^verbatim>\<open>if (!formData.consent) newErrors.consent = message\<close>\<close>
  "consent_given c message es = (if c then es else set_err ''consent'' message es)"

record env =
  BESTRX_USERNAME :: "string option"
  BESTRX_API_KEY :: "string option"
  BESTRX_PASSWORD :: "string option"
  BESTRX_PHARMACY_NUMBER :: "string option"

definition missing :: "string option \<Rightarrow> bool" where
  \<comment> \<open>\<^verbatim>\<open>!value\<close> of a configuration value: it is undefined or the empty string.\<close>
  "missing v = (case v of None \<Rightarrow> True | Some s \<Rightarrow> s = [])"

subsection \<open>Responses of the pharmacy system\<close>

text \<open>
  A parsed JSON value. A number is kept as the text JavaScript prints for it, which is
  all the components do with one. The keys of an object are distinct. A property read
  gives \<^verbatim>\<open>undefined\<close>, written \<open>None\<close>, when the value has no such property.
\<close>

datatype json =
  JNull | JBool bool | JNum string | JStr string | JArr "json list" | JObj "(string \<times> json) list"

datatype thrown =
  Err string   \<comment> \<open>an \<^verbatim>\<open>Error\<close> with its message\<close>
| Other   \<comment> \<open>a thrown value that is not an \<^verbatim>\<open>Error\<close>\<close>

definition TypeError :: thrown where
  \<comment> \<open>A property read from \<^verbatim>\<open>null\<close> or \<^verbatim>\<open>undefined\<close>, or a call of something that is no function. The
      wording belongs to the engine; this is V8's.\<close>
  "TypeError = Err ''Cannot read properties of null''"

datatype body =
  Unparsable string   \<comment> \<open>\<^verbatim>\<open>response.json()\<close> rejects with a SyntaxError of this message\<close>
| Parsed json

record response =
  resp_status :: nat
  resp_body :: body

datatype fetch_result =
  Rejected thrown   \<comment> \<open>\<^verbatim>\<open>fetch\<close> rejects: no response\<close>
| Responded response

definition ok :: "response \<Rightarrow> bool" where
  \<comment> \<open>\<^verbatim>\<open>response.ok\<close>\<close>
  "ok r = (200 \<le> resp_status r \<and> resp_status r \<le> 299)"

definition own_prop :: "json \<Rightarrow> string \<Rightarrow> json option" where
  \<comment> \<open>\<^verbatim>\<open>v.k\<close> for a value that is not \<^verbatim>\<open>null\<close> and a key that names no built-in property.\<close>
  "own_prop v k = (case v of JObj kvs \<Rightarrow> map_of kvs k | _ \<Rightarrow> None)"

definition get :: "json option \<Rightarrow> string \<Rightarrow> thrown + json option" where
  \<comment> \<open>\<^verbatim>\<open>v.k\<close>: a TypeError on \<^verbatim>\<open>null\<close> and \<^verbatim>\<open>undefined\<close>.\<close>
  "get v k = (case v of None \<Rightarrow> Inl TypeError | Some JNull \<Rightarrow> Inl TypeError | Some x \<Rightarrow> Inr (own_prop x k))"

definition get_opt :: "json option \<Rightarrow> string \<Rightarrow> json option" where
  \<comment> \<open>\<^verbatim>\<open>v?.k\<close>\<close>
  "get_opt v k = (case v of None \<Rightarrow> None | Some JNull \<Rightarrow> None | Some x \<Rightarrow> own_prop x k)"

definition first_opt :: "json option \<Rightarrow> json option" where
  \<comment> \<open>\<^verbatim>\<open>v?.[0]\<close>: the first element of an array, the first character of a string.\<close>
  "first_opt v =
     (case v of
        Some (JArr (x # xs)) \<Rightarrow> Some x
      | Some (JStr (c # cs)) \<Rightarrow> Some (JStr [c])
      | Some (JObj kvs) \<Rightarrow> map_of kvs ''0''
      | _ \<Rightarrow> None)"

definition truthy :: "json option \<Rightarrow> bool" where
  "truthy v =
     (case v of
        None \<Rightarrow> False
      | Some JNull \<Rightarrow> False
      | Some (JBool b) \<Rightarrow> b
      | Some (JNum n) \<Rightarrow> n \<noteq> ''0''
      | Some (JStr s) \<Rightarrow> s \<noteq> []
      | Some _ \<Rightarrow> True)"

definition or_else :: "json option \<Rightarrow> json option \<Rightarrow> json option" where
  \<comment> \<open>\<^verbatim>\<open>a || b\<close>\<close>
  "or_else a b = (if truthy a then a else b)"

fun join :: "string \<Rightarrow> string list \<Rightarrow> string" where
  "join sep [] = []"
| "join sep [x] = x"
| "join sep (x # y # ys) = x @ sep @ join sep (y # ys)"

fun ToString :: "json \<Rightarrow> string" where
  "ToString JNull = ''null''"
| "ToString (JBool b) = (if b then ''true'' else ''false'')"
| "ToString (JNum n) = n"
| "ToString (JStr s) = s"
| "ToString (JArr xs) = join '','' (map (\<lambda>x. if x = JNull then [] else ToString x) xs)"
| "ToString (JObj kvs) = ''[object Object]''"

definition to_text :: "json option \<Rightarrow> string" where
  \<comment> \<open>A value inside a template literal or as the message of a new \<^verbatim>\<open>Error\<close>.\<close>
  "to_text v = (case v of None \<Rightarrow> ''undefined'' | Some x \<Rightarrow> ToString x)"

subsection \<open>Form state\<close>

text \<open>
  Every form component holds its field values, the map of validation errors and the
  submission status; the two pharmacy forms also hold the message of a failed
  submission. The fields of the five \<^verbatim>\<open>FormData\<close> interfaces carry the initial of their
  form (\<open>r_\<close>, \<open>t_\<close>, \<open>c_\<close>, \<open>w_\<close>, \<open>s_\<close>), since several forms share field names.
\<close>

record 'f form =
  formData :: 'f
  errors :: errors
  status :: status

record 'f api_form = "'f form" +
  apiError :: "string option"

section \<open>RefillRequestModal\<close>

datatype service = pickup | delivery

record RefillFormData =
  r_patientName :: string
  r_dob :: string
  r_phone :: string
  r_email :: string
  r_prescriptionNumbers :: string
  r_medicationNames :: string
  r_preferredService :: service
  r_notes :: string
  r_consent :: bool

definition rx_sep :: "char \<Rightarrow> bool" where
  \<comment> \<open>\<^verbatim>\<open>[\s,]\<close>\<close>
  "rx_sep c = (is_ws c \<or> c = CHR '','')"

definition rx_tokens :: "string \<Rightarrow> string list" where
  \<comment> \<open>\<^verbatim>\<open>prescriptionNumbers.split(/[\s,]+/).filter(n => n.trim())\<close>\<close>
  "rx_tokens s = filter (\<lambda>n. trim n \<noteq> []) (split_runs rx_sep [] s)"

definition Refill_dob :: "clock \<Rightarrow> string \<Rightarrow> errors \<Rightarrow> errors" where
  "Refill_dob now v es =
     (if trim v = [] then set_err ''dob'' ''Date of birth is required.'' es
      else if date_gt (selectedDate v) (today now)
      then set_err ''dob'' ''Date of birth cannot be in the future.'' es
      else es)"

definition Refill_email :: "string \<Rightarrow> errors \<Rightarrow> errors" where
  \<comment> \<open>\<^verbatim>\<open>if (email.trim() && !EMAIL.test(email)) ...\<close>\<close>
  "Refill_email v es =
     (if trim v = [] \<or> test_anywhere EMAIL_RE v then es
      else set_err ''email'' ''Please enter a valid email address.'' es)"

definition Refill_prescriptionNumbers :: "string \<Rightarrow> errors \<Rightarrow> errors" where
  "Refill_prescriptionNumbers v es =
     (if trim v = []
      then set_err ''prescriptionNumbers'' ''At least one prescription number is required.'' es
      else if 1000 < length (trim v)
      then set_err ''prescriptionNumbers'' ''Prescription numbers field is too long.'' es
      else if rx_tokens v = [] \<or> list_ex (\<lambda>n. isNaN (Number n)) (rx_tokens v)
      then set_err ''prescriptionNumbers''
             ''Please enter valid, numeric prescription number(s).'' es
      else es)"

definition Refill_validate :: "clock \<Rightarrow> RefillFormData \<Rightarrow> errors" where
  "Refill_validate now fd =
     (let e1 = required (r_patientName fd) ''patientName'' ''Patient full name is required.'' [];
          e2 = Refill_dob now (r_dob fd) e1;
          e3 = us_phone (r_phone fd) ''phone'' ''Phone number is required.'' e2;
          e4 = Refill_email (r_email fd) e3;
          e5 = Refill_prescriptionNumbers (r_prescriptionNumbers fd) e4;
          e6 = at_most 500 (r_medicationNames fd) ''medicationNames''
                 ''Medication names cannot exceed 500 characters.'' e5;
          e7 = at_most 500 (r_notes fd) ''notes'' ''Notes cannot exceed 500 characters.'' e6
      in consent_given (r_consent fd) ''You must acknowledge the statement to proceed.'' e7)"

record refill_payload =
  userName :: string
  APIKey :: string
  PharmacyNumber :: string
  LastName :: string
  DOB :: string
  Phone :: string
  RequestDateTime :: string
  DeliveryOption :: nat
  RequestType :: nat
  RxInRefillRequest :: "jsnum list"   \<comment> \<open>the \<^verbatim>\<open>RxNo\<close> of each entry\<close>
  Notes :: string

definition getLastName :: "string \<Rightarrow> string" where
  \<comment> \<open>\<^verbatim>\<open>fullName.trim().split(' ').pop() || ''\<close>\<close>
  "getLastName fullName = last (split_on (\<lambda>c. c = CHR '' '') [] (trim fullName))"

definition digits_only :: "string \<Rightarrow> string" where
  \<comment> \<open>\<^verbatim>\<open>s.replace(/\D/g, '')\<close>\<close>
  "digits_only s = filter is_digit s"

definition rxNumbers :: "RefillFormData \<Rightarrow> jsnum list" where
  "rxNumbers fd =
     map (\<lambda>num. Number (trim num))
       (filter (\<lambda>num. trim num \<noteq> [] \<and> \<not> isNaN (Number num))
          (split_runs rx_sep [] (r_prescriptionNumbers fd)))"

definition Refill_payload :: "env \<Rightarrow> clock \<Rightarrow> RefillFormData \<Rightarrow> refill_payload" where
  "Refill_payload ev now fd =
     \<lparr> userName = the (BESTRX_USERNAME ev),
       APIKey = the (BESTRX_API_KEY ev),
       PharmacyNumber = the (BESTRX_PHARMACY_NUMBER ev),
       LastName = getLastName (r_patientName fd),
       DOB = r_dob fd,
       Phone = digits_only (r_phone fd),
       RequestDateTime = now_iso now,
       DeliveryOption = (if r_preferredService fd = pickup then 1 else 2),
       RequestType = 1,
       RxInRefillRequest = rxNumbers fd,
       Notes = (if r_medicationNames fd = [] then []
                else ''Medications: '' @ r_medicationNames fd @ ''. '') @ r_notes fd \<rparr>"

datatype refill_request =
  SendRefillRequest refill_payload
    \<comment> \<open>POST to \<^verbatim>\<open>.../webrefillservice/SendRefillRequest\<close> with this body\<close>

definition error_code :: "json \<Rightarrow> thrown + json option" where
  \<comment> \<open>\<^verbatim>\<open>errorData.ErrorCode || errorData.Code\<close>\<close>
  "error_code errorData =
     (case get (Some errorData) ''ErrorCode'' of
        Inl t \<Rightarrow> Inl t
      | Inr c \<Rightarrow> if truthy c then Inr c else get (Some errorData) ''Code'')"

definition switch :: "json option \<Rightarrow> (string \<times> string) list \<Rightarrow> string \<Rightarrow> string" where
  \<comment> \<open>A \<^verbatim>\<open>switch\<close> over string cases, compared with \<^verbatim>\<open>===\<close>, and its default.\<close>
  "switch v cases dflt =
     (case v of Some (JStr s) \<Rightarrow> (case map_of cases s of Some m \<Rightarrow> m | None \<Rightarrow> dflt)
      | _ \<Rightarrow> dflt)"

definition message_or :: "json \<Rightarrow> string \<Rightarrow> string" where
  \<comment> \<open>\<^verbatim>\<open>errorData.Message || text\<close>, as the message of the Error thrown.\<close>
  "message_or errorData text =
     (if truthy (own_prop errorData ''Message'') then to_text (own_prop errorData ''Message'')
      else text)"

definition errorData_of :: "response \<Rightarrow> json" where
  \<comment> \<open>\<^verbatim>\<open>await response.json().catch(() => ({}))\<close>\<close>
  "errorData_of r = (case resp_body r of Unparsable m \<Rightarrow> JObj [] | Parsed j \<Rightarrow> j)"

definition Refill_error_response :: "response \<Rightarrow> thrown" where
  \<comment> \<open>The branch \<^verbatim>\<open>if (!response.ok)\<close>: what it throws.\<close>
  "Refill_error_response r =
     (let errorData = errorData_of r
      in if resp_status r = 400 then
           (case error_code errorData of
              Inl t \<Rightarrow> t
            | Inr c \<Rightarrow>
                Err (switch c
                  [(''1000'', ''Service configuration error. Please contact support.''),
                   (''1001'', ''Invalid pharmacy configuration. Please contact support.''),
                   (''1011'', ''Patient last name is required.''),
                   (''1012'', ''Please enter a valid date of birth.''),
                   (''1013'', ''Invalid request timestamp. Please try again.''),
                   (''1014'', ''Please enter at least one prescription number.''),
                   (''1015'', ''Invalid delivery option selected.''),
                   (''1016'', ''Invalid request source. Please try again.''),
                   (''1019'', ''Prescription number or patient ID is required.'')]
                  (message_or errorData
                     ''Invalid request data. Please check your information.'')))
         else if resp_status r = 403 then
           (case error_code errorData of
              Inl t \<Rightarrow> t
            | Inr c \<Rightarrow>
                Err (switch c
                  [(''1004'', ''Service authentication failed. Please contact support.''),
                   (''1018'',
                    ''Pharmacy not authorized for this service. Please contact support.'')]
                  ''Access denied. Please contact support.''))
         else if resp_status r = 500 then
           Err ''The pharmacy system is temporarily unavailable. Please try again later.''
         else Err ''An error occurred while processing your refill request.'')"

definition Refill_failure_line :: "json \<Rightarrow> string" where
  \<comment> \<open>\<^verbatim>\<open>`Rx ${item.RxNo}: ${item.StatusDesc || 'Request failed'}`\<close>\<close>
  "Refill_failure_line item =
     ''Rx '' @ to_text (own_prop item ''RxNo'') @ '': '' @
     (if truthy (own_prop item ''StatusDesc'') then to_text (own_prop item ''StatusDesc'')
      else ''Request failed'')"

definition Refill_result :: "json \<Rightarrow> thrown + string option" where
  \<comment> \<open>The handling of a parsed answer with an ok status: it throws, or it ends with
      success (\<open>None\<close>) or with the message of the error state.\<close>
  "Refill_result result =
     (case get (Some result) ''RxInRefillResponse'' of
        Inl t \<Rightarrow> Inl t
      | Inr (Some (JArr responses)) \<Rightarrow>
          if list_ex (\<lambda>item. item = JNull) responses then Inl TypeError
          else
            (let failedRequests =
                   filter (\<lambda>item. own_prop item ''Status'' \<noteq> Some (JStr ''OK'')) responses
             in if failedRequests = [] then Inr None
                else Inr (Some (''Some refill requests failed: '' @
                                join '', '' (map Refill_failure_line failedRequests))))
      | Inr _ \<Rightarrow>
          Inr (Some ''Unexpected response from pharmacy system. Please contact support.''))"

definition Refill_try :: "fetch_result \<Rightarrow> thrown + string option" where
  \<comment> \<open>The \<^verbatim>\<open>try\<close> block after the request was sent.\<close>
  "Refill_try net =
     (case net of
        Rejected t \<Rightarrow> Inl t
      | Responded r \<Rightarrow>
          if ok r then
            (case resp_body r of
               Unparsable m \<Rightarrow> Inl (Err m)
             | Parsed result \<Rightarrow> Refill_result result)
          else Inl (Refill_error_response r))"

definition Refill_catch :: "thrown \<Rightarrow> string" where
  \<comment> \<open>The message the \<^verbatim>\<open>catch\<close> block shows.\<close>
  "Refill_catch t =
     (case t of
        Other \<Rightarrow> ''Could not connect to the pharmacy system.''
      | Err m \<Rightarrow>
          if list_ex (str_includes m)
               [''Service configuration error'', ''Invalid pharmacy configuration'',
                ''Patient last name is required'', ''Please enter a valid date of birth'',
                ''Invalid request timestamp'', ''Please enter at least one prescription number'',
                ''Invalid delivery option selected'', ''Invalid request source'',
                ''Prescription number or patient ID is required'',
                ''Service authentication failed'', ''Pharmacy not authorized for this service'',
                ''Access denied'', ''The pharmacy system is temporarily unavailable'',
                ''Some refill requests failed'', ''Unexpected response from pharmacy system'']
          then m
          else if str_includes m ''fetch'' \<or> str_includes m ''NetworkError''
          then ''Network connection failed. Please check your internet connection and try again.''
          else ''An unexpected error occurred. Please try again or contact support.'')"

definition Refill_handleSubmit ::
  "env \<Rightarrow> clock \<Rightarrow> fetch_result \<Rightarrow> RefillFormData api_form
     \<Rightarrow> RefillFormData api_form \<times> refill_request list" where
  \<comment> \<open>The state when the handler has finished, and the requests it sent. \<open>net\<close> is what
      \<^verbatim>\<open>fetch\<close> does with a request.\<close>
  "Refill_handleSubmit ev now net st =
     (let validationErrors = Refill_validate now (formData st)
      in if has_errors validationErrors
         then (st\<lparr>apiError := None, errors := validationErrors\<rparr>, [])
         else if missing (BESTRX_USERNAME ev) \<or> missing (BESTRX_API_KEY ev)
                 \<or> missing (BESTRX_PHARMACY_NUMBER ev)
         then (st\<lparr>apiError := Some ''Service configuration error. Please contact support.'',
                  status := Error\<rparr>, [])
         else if rxNumbers (formData st) = []
         then (st\<lparr>apiError := Some ''Please enter at least one valid prescription number.'',
                  status := Error\<rparr>, [])
         else
           (case Refill_try net of
              Inr None \<Rightarrow> (st\<lparr>apiError := None, status := Success, errors := []\<rparr>,
                            [SendRefillRequest (Refill_payload ev now (formData st))])
            | Inr (Some m) \<Rightarrow> (st\<lparr>apiError := Some m, status := Error\<rparr>,
                                [SendRefillRequest (Refill_payload ev now (formData st))])
            | Inl t \<Rightarrow> (st\<lparr>apiError := Some (Refill_catch t), status := Error\<rparr>,
                           [SendRefillRequest (Refill_payload ev now (formData st))])))"

section \<open>TransferRequestModal\<close>

record TransferFormData =
  t_rxNumber :: string
  t_rxFillDate :: string
  t_transferToPharmacyName :: string
  t_transferToPharmacyAddress1 :: string
  t_transferToPharmacyAddress2 :: string
  t_transferToPharmacyCity :: string
  t_transferToPharmacyState :: string
  t_transferToPharmacyZip :: string
  t_transferToPharmacyPhone :: string
  t_transferToPharmacyNCPDP :: string
  t_transferRxRemark :: string
  t_consent :: bool

definition not_positive :: "jsnum \<Rightarrow> bool" where
  \<comment> \<open>\<^verbatim>\<open>x <= 0\<close>\<close>
  "not_positive x = (case x of Num q \<Rightarrow> q \<le> 0 | NegInf \<Rightarrow> True | _ \<Rightarrow> False)"

definition Transfer_rxNumber :: "string \<Rightarrow> errors \<Rightarrow> errors" where
  "Transfer_rxNumber v es =
     (if trim v = [] \<or> isNaN (Number v)
      then set_err ''rxNumber'' ''A valid prescription number is required.'' es
      else if not_positive (Number v)
      then set_err ''rxNumber'' ''Prescription number must be a positive number.'' es
      else es)"

definition Transfer_rxFillDate :: "clock \<Rightarrow> string \<Rightarrow> errors \<Rightarrow> errors" where
  \<comment> \<open>The check against \<^verbatim>\<open>twoYearsAgo\<close> comes after the check against \<^verbatim>\<open>today\<close>, and its
      assignment replaces the earlier one.\<close>
  "Transfer_rxFillDate now v es =
     (if trim v = [] then set_err ''rxFillDate'' ''Last fill date is required.'' es
      else
        (let e1 = (if date_gt (selectedDate v) (today now)
                   then set_err ''rxFillDate'' ''Fill date cannot be in the future.'' es else es)
         in if date_lt (selectedDate v) (twoYearsAgo now)
            then set_err ''rxFillDate'' ''Fill date cannot be more than 2 years ago.'' e1
            else e1))"

definition Transfer_state :: "string \<Rightarrow> errors \<Rightarrow> errors" where
  "Transfer_state v es =
     (if trim v = [] then set_err ''transferToPharmacyState'' ''State is required.'' es
      else if matches STATE_RE (toUpperCase (trim v)) then es
      else set_err ''transferToPharmacyState'' ''Please use 2-letter state code (e.g., OH).'' es)"

definition Transfer_zip :: "string \<Rightarrow> errors \<Rightarrow> errors" where
  "Transfer_zip v es =
     (if trim v = [] then set_err ''transferToPharmacyZip'' ''ZIP code is required.'' es
      else if matches ZIP_RE v then es
      else set_err ''transferToPharmacyZip'' ''Please enter a valid 5-digit ZIP code.'' es)"

definition Transfer_NCPDP :: "string \<Rightarrow> errors \<Rightarrow> errors" where
  \<comment> \<open>\<^verbatim>\<open>if (value.trim() && !/^\d{7}$/.test(value.trim())) ...\<close>\<close>
  "Transfer_NCPDP v es =
     (if trim v = [] \<or> matches NCPDP_RE (trim v) then es
      else set_err ''transferToPharmacyNCPDP'' ''NCPDP number must be 7 digits.'' es)"

definition Transfer_validate :: "clock \<Rightarrow> TransferFormData \<Rightarrow> errors" where
  "Transfer_validate now fd =
     (let e1 = Transfer_rxNumber (t_rxNumber fd) [];
          e2 = Transfer_rxFillDate now (t_rxFillDate fd) e1;
          e3 = required (t_transferToPharmacyName fd) ''transferToPharmacyName''
                 ''Destination pharmacy name is required.'' e2;
          e4 = required (t_transferToPharmacyAddress1 fd) ''transferToPharmacyAddress1''
                 ''Address Line 1 is required.'' e3;
          e5 = required (t_transferToPharmacyCity fd) ''transferToPharmacyCity''
                 ''City is required.'' e4;
          e6 = Transfer_state (t_transferToPharmacyState fd) e5;
          e7 = Transfer_zip (t_transferToPharmacyZip fd) e6;
          e8 = us_phone (t_transferToPharmacyPhone fd) ''transferToPharmacyPhone''
                 ''Pharmacy phone number is required.'' e7;
          e9 = Transfer_NCPDP (t_transferToPharmacyNCPDP fd) e8
      in consent_given (t_consent fd) ''You must authorize this transfer request.'' e9)"

record pharmacy =
  PharmacyName :: string
  Address1 :: string
  Address2 :: string
  City :: string
  State :: string
  Zip :: string
  PharmacyNCPDP :: string
  PharmacyPhoneNumber :: string
  PharmacyFaxNumber :: string
  pharmacy_ContactName :: string

record transfer_payload =
  transfer_PharmacyNumber :: string
  RxNo :: jsnum
  RxFillDate :: string
  TransferToPharmacy :: pharmacy
  TransferDate :: string
  RPHInitial :: string
  ContactName :: string
  TransferRxRemark :: string
  UserID :: string
  RxTransferType :: nat

definition Transfer_payload :: "env \<Rightarrow> clock \<Rightarrow> TransferFormData \<Rightarrow> transfer_payload" where
  "Transfer_payload ev now fd =
     \<lparr> transfer_PharmacyNumber = the (BESTRX_PHARMACY_NUMBER ev),
       RxNo = Number (t_rxNumber fd),
       RxFillDate = t_rxFillDate fd,
       TransferToPharmacy =
         \<lparr> PharmacyName = trim (t_transferToPharmacyName fd),
           Address1 = trim (t_transferToPharmacyAddress1 fd),
           Address2 = trim (t_transferToPharmacyAddress2 fd),
           City = trim (t_transferToPharmacyCity fd),
           State = toUpperCase (trim (t_transferToPharmacyState fd)),
           Zip = trim (t_transferToPharmacyZip fd),
           PharmacyNCPDP = trim (t_transferToPharmacyNCPDP fd),
           PharmacyPhoneNumber = digits_only (t_transferToPharmacyPhone fd),
           PharmacyFaxNumber = [],
           pharmacy_ContactName = [] \<rparr>,
       TransferDate = hd (split_on (\<lambda>c. c = CHR ''T'') [] (now_iso now)),
       RPHInitial = ''VVP'',
       ContactName = ''Patient Web Request'',
       TransferRxRemark = trim (t_transferRxRemark fd),
       UserID = ''WEB'',
       RxTransferType = 0 \<rparr>"

datatype transfer_request =
  SubmitRxTransferRequest string string transfer_payload
    \<comment> \<open>POST to \<^verbatim>\<open>.../prescription/submitrxtransferrequest\<close> with Basic authentication
        (user name, password) and this body\<close>

definition Transfer_error_response :: "response \<Rightarrow> thrown" where
  \<comment> \<open>The branch \<^verbatim>\<open>if (!response.ok)\<close>: what it throws.\<close>
  "Transfer_error_response r =
     (let errorData = errorData_of r
      in if resp_status r = 400 then
           (case error_code errorData of
              Inl t \<Rightarrow> t
            | Inr c \<Rightarrow>
                Err (switch c
                  [(''ERROR0027'', ''Please provide pharmacy number or NCPDP number.''),
                   (''ERROR0069'', ''Please provide valid fill date.''),
                   (''ERROR0070'', ''Fill date cannot be in the future.''),
                   (''ERROR0080'', ''Please provide valid RX number.'')]
                  (message_or errorData
                     ''Invalid request data. Please check your information.'')))
         else if resp_status r = 401 then
           (case error_code errorData of
              Inl t \<Rightarrow> t
            | Inr c \<Rightarrow>
                Err (switch c
                  [(''ERROR0003'', ''Authentication failed. Please contact support.'')]
                  ''Access denied. Please contact support.''))
         else if resp_status r = 200 then
           (case get (Some errorData) ''ErrorCode'' of
              Inl t \<Rightarrow> t
            | Inr c \<Rightarrow>
                if c = Some (JStr ''ERROR0082'')
                then Err (''Error while sending transfer Rx request. '' @
                          ''Please try again or contact support.'')
                else Err ''An error occurred while processing your transfer request.'')
         else Err ''An error occurred while processing your transfer request.'')"

definition validationMessage :: "json \<Rightarrow> string" where
  \<comment> \<open>\<^verbatim>\<open>result.Data?.ListOfValidationMessage?.[0]?.Message || result.Messages?.[0]?.Message
      || 'Transfer request validation failed.'\<close>\<close>
  "validationMessage result =
     (let a = get_opt (first_opt (get_opt (own_prop result ''Data'')
                                    ''ListOfValidationMessage'')) ''Message'';
          b = get_opt (first_opt (own_prop result ''Messages'')) ''Message''
      in if truthy a then to_text a
         else if truthy b then to_text b
         else ''Transfer request validation failed.'')"

definition Transfer_result :: "json \<Rightarrow> thrown + string option" where
  \<comment> \<open>The handling of a parsed answer with an ok status: it throws, or it ends with
      success (\<open>None\<close>) or with the message of the error state.\<close>
  "Transfer_result result =
     (case get (Some result) ''IsValid'' of
        Inl t \<Rightarrow> Inl t
      | Inr v \<Rightarrow>
          if v = Some (JBool False) then Inl (Err (validationMessage result))
          else if truthy (own_prop result ''Data'')
                  \<and> get_opt (own_prop result ''Data'') ''RxTransferred'' = Some (JBool True)
          then Inr None
          else Inr (Some ''Unexpected response from pharmacy system. Please contact support.''))"

definition Transfer_try :: "fetch_result \<Rightarrow> thrown + string option" where
  \<comment> \<open>The \<^verbatim>\<open>try\<close> block after the request was sent.\<close>
  "Transfer_try net =
     (case net of
        Rejected t \<Rightarrow> Inl t
      | Responded r \<Rightarrow>
          if ok r then
            (case resp_body r of
               Unparsable m \<Rightarrow> Inl (Err m)
             | Parsed result \<Rightarrow> Transfer_result result)
          else Inl (Transfer_error_response r))"

definition Transfer_catch :: "thrown \<Rightarrow> string" where
  \<comment> \<open>The message the \<^verbatim>\<open>catch\<close> block shows.\<close>
  "Transfer_catch t =
     (case t of
        Other \<Rightarrow> ''Could not connect to the pharmacy system.''
      | Err m \<Rightarrow>
          if list_ex (str_includes m)
               [''Please provide pharmacy number or NCPDP number'',
                ''Please provide valid fill date'', ''Fill date cannot be in the future'',
                ''Please provide valid RX number'', ''Authentication failed'',
                ''Access denied'', ''Error while sending transfer Rx request'',
                ''Transfer request validation failed'',
                ''Unexpected response from pharmacy system'']
          then m
          else if str_includes m ''fetch'' \<or> str_includes m ''NetworkError''
          then ''Network connection failed. Please check your internet connection and try again.''
          else ''An unexpected error occurred. Please try again or contact support.'')"

definition Transfer_handleSubmit ::
  "env \<Rightarrow> clock \<Rightarrow> fetch_result \<Rightarrow> TransferFormData api_form
     \<Rightarrow> TransferFormData api_form \<times> transfer_request list" where
  \<comment> \<open>The state when the handler has finished, and the requests it sent. \<open>net\<close> is what
      \<^verbatim>\<open>fetch\<close> does with a request.\<close>
  "Transfer_handleSubmit ev now net st =
     (let validationErrors = Transfer_validate now (formData st)
      in if has_errors validationErrors
         then (st\<lparr>apiError := None, errors := validationErrors\<rparr>, [])
         else if missing (BESTRX_USERNAME ev) \<or> missing (BESTRX_PASSWORD ev)
                 \<or> missing (BESTRX_PHARMACY_NUMBER ev)
         then (st\<lparr>apiError := Some ''Service configuration error. Please contact support.'',
                  status := Error\<rparr>, [])
         else
           (let sent = [SubmitRxTransferRequest (the (BESTRX_USERNAME ev))
                          (the (BESTRX_PASSWORD ev)) (Transfer_payload ev now (formData st))]
            in case Transfer_try net of
                 Inr None \<Rightarrow> (st\<lparr>apiError := None, status := Success, errors := []\<rparr>, sent)
               | Inr (Some m) \<Rightarrow> (st\<lparr>apiError := Some m, status := Error\<rparr>, sent)
               | Inl t \<Rightarrow> (st\<lparr>apiError := Some (Transfer_catch t), status := Error\<rparr>, sent)))"

section \<open>Contact and SplashModal\<close>

datatype effect =
  Wait nat   \<comment> \<open>\<^verbatim>\<open>await new Promise(resolve => setTimeout(resolve, ms))\<close>\<close>
| Log   \<comment> \<open>\<^verbatim>\<open>console.log\<close> of the form data\<close>

datatype reason = general | new | transfer | refill | rpm

record ContactFormData =
  c_name :: string
  c_phone :: string
  c_email :: string
  c_reason :: reason
  c_message :: string
  c_consent :: bool

definition Contact_initial :: ContactFormData where
  "Contact_initial =
     \<lparr> c_name = [], c_phone = [], c_email = [], c_reason = general, c_message = [],
       c_consent = False \<rparr>"

definition Contact_message :: "reason \<Rightarrow> string \<Rightarrow> errors \<Rightarrow> errors" where
  \<comment> \<open>\<^verbatim>\<open>if (['new', 'transfer', 'refill'].includes(reason) && !message.trim()) ...
      else if (message.trim().length > 500) ...\<close>\<close>
  "Contact_message r v es =
     (if r \<in> {new, transfer, refill} \<and> trim v = []
      then set_err ''message'' ''Please provide more details for your request.'' es
      else if 500 < length (trim v)
      then set_err ''message'' ''Message must be less than 500 characters.'' es
      else es)"

definition Contact_validate :: "ContactFormData \<Rightarrow> errors" where
  "Contact_validate fd =
     (let e1 = required (c_name fd) ''name'' ''Full name is required.'' [];
          e2 = email_required (c_email fd) e1;
          e3 = us_phone (c_phone fd) ''phone'' ''Phone number is required.'' e2;
          e4 = Contact_message (c_reason fd) (c_message fd) e3
      in consent_given (c_consent fd) ''You must acknowledge the statement to proceed.'' e4)"

definition Contact_handleSubmit ::
  "ContactFormData form \<Rightarrow> ContactFormData form \<times> effect list" where
  \<comment> \<open>The call of the backend is a mock: a timer of one second, which cannot fail, and a
      line on the console.\<close>
  "Contact_handleSubmit st =
     (let validationErrors = Contact_validate (formData st)
      in if has_errors validationErrors then (st\<lparr>errors := validationErrors\<rparr>, [])
         else (st\<lparr>status := Success, errors := [], formData := Contact_initial\<rparr>,
               [Wait 1000, Log]))"

record SplashModalFormData =
  s_email :: string

definition Splash_validate :: "SplashModalFormData \<Rightarrow> errors" where
  "Splash_validate fd = email_required (s_email fd) []"

definition Splash_handleSubmit ::
  "SplashModalFormData form \<Rightarrow> SplashModalFormData form \<times> effect list" where
  \<comment> \<open>The same mock call as in the contact form.\<close>
  "Splash_handleSubmit st =
     (let validationErrors = Splash_validate (formData st)
      in if has_errors validationErrors then (st\<lparr>errors := validationErrors\<rparr>, [])
         else (st\<lparr>status := Success, errors := []\<rparr>, [Wait 1000, Log]))"

section \<open>WaitlistModal\<close>

text \<open>
  The waitlist is kept under one key of \<^verbatim>\<open>localStorage\<close> as JSON text. The model keeps
  what \<^verbatim>\<open>getItem\<close> and \<^verbatim>\<open>JSON.parse\<close> make of that text, and takes
  \<^verbatim>\<open>JSON.parse(JSON.stringify(v))\<close> to be \<open>v\<close> for a value made of strings, arrays and
  objects. Reading and writing the storage can fail (access denied, quota exceeded).
\<close>

datatype stored =
  Missing   \<comment> \<open>\<^verbatim>\<open>getItem\<close> returns \<^verbatim>\<open>null\<close>\<close>
| Empty_text   \<comment> \<open>the empty string\<close>
| Malformed   \<comment> \<open>text that \<^verbatim>\<open>JSON.parse\<close> rejects\<close>
| Json_text json   \<comment> \<open>text that \<^verbatim>\<open>JSON.parse\<close> reads as this value\<close>

record localStorage =
  getItem_throws :: bool
  setItem_throws :: "thrown option"
  item :: stored   \<comment> \<open>under \<^verbatim>\<open>WAITLIST_STORAGE_KEY\<close>\<close>

record WaitlistFormData =
  w_name :: string
  w_email :: string
  w_phone :: string

definition getWaitlistEntries :: "localStorage \<Rightarrow> json" where
  \<comment> \<open>\<^verbatim>\<open>try { stored = getItem(KEY); return stored ? JSON.parse(stored) : [] } catch { return [] }\<close>\<close>
  "getWaitlistEntries ls =
     (if getItem_throws ls then JArr []
      else case item ls of
             Missing \<Rightarrow> JArr []
           | Empty_text \<Rightarrow> JArr []
           | Malformed \<Rightarrow> JArr []
           | Json_text v \<Rightarrow> v)"

definition same_email :: "json \<Rightarrow> string \<Rightarrow> thrown + bool" where
  \<comment> \<open>\<^verbatim>\<open>e.email.toLowerCase() === email.toLowerCase()\<close>: a TypeError unless \<^verbatim>\<open>e.email\<close> is a string.\<close>
  "same_email e email =
     (case own_prop e ''email'' of
        Some (JStr s) \<Rightarrow> Inr (toLowerCase s = toLowerCase email)
      | _ \<Rightarrow> Inl TypeError)"

fun find_entry :: "json list \<Rightarrow> string \<Rightarrow> thrown + json option" where
  \<comment> \<open>\<^verbatim>\<open>entries.find(e => ...)\<close>: the first entry of that email.\<close>
  "find_entry [] email = Inr None"
| "find_entry (e # es) email =
     (case same_email e email of
        Inl t \<Rightarrow> Inl t
      | Inr b \<Rightarrow> if b then Inr (Some e) else find_entry es email)"

fun some_entry :: "json list \<Rightarrow> string \<Rightarrow> thrown + bool" where
  \<comment> \<open>\<^verbatim>\<open>entries.some(entry => ...)\<close>\<close>
  "some_entry [] email = Inr False"
| "some_entry (e # es) email =
     (case same_email e email of
        Inl t \<Rightarrow> Inl t
      | Inr b \<Rightarrow> if b then Inr True else some_entry es email)"

definition isEmailOnWaitlist :: "localStorage \<Rightarrow> string \<Rightarrow> thrown + bool" where
  \<comment> \<open>A value that is no array has no method \<^verbatim>\<open>some\<close>.\<close>
  "isEmailOnWaitlist ls email =
     (case getWaitlistEntries ls of JArr entries \<Rightarrow> some_entry entries email
      | _ \<Rightarrow> Inl TypeError)"

function show_nat :: "nat \<Rightarrow> string" where
  \<comment> \<open>The decimal digits of a number, as \<^verbatim>\<open>Date.now().toString()\<close> prints them.\<close>
  "show_nat n =
     (if n < 10 then [char_of (48 + n)] else show_nat (n div 10) @ [char_of (48 + n mod 10)])"
  by pat_completeness auto
termination
  by (relation "measure id") auto

definition newEntry :: "clock \<Rightarrow> string \<Rightarrow> string \<Rightarrow> string \<Rightarrow> json" where
  \<comment> \<open>\<^verbatim>\<open>{ ...entry, id: Date.now().toString(), timestamp: new Date().toISOString(),
      status: 'active' }\<close>\<close>
  "newEntry now name email phone =
     JObj [(''name'', JStr name), (''email'', JStr email), (''phone'', JStr phone),
           (''id'', JStr (show_nat (now_epoch now))), (''timestamp'', JStr (now_iso now)),
           (''status'', JStr ''active'')]"

definition saveWaitlistEntry ::
  "localStorage \<Rightarrow> clock \<Rightarrow> string \<Rightarrow> string \<Rightarrow> string
     \<Rightarrow> thrown + json \<times> localStorage" where
  \<comment> \<open>It returns the new entry, with the storage as written, or throws what its
      \<^verbatim>\<open>catch\<close> block throws again. A value that is no array has no method \<^verbatim>\<open>find\<close>.\<close>
  "saveWaitlistEntry ls now name email phone =
     (case getWaitlistEntries ls of
        JArr entries \<Rightarrow>
          (case find_entry entries email of
             Inl t \<Rightarrow> Inl t
           | Inr (Some existingEntry) \<Rightarrow>
               Inl (Err ''This email address is already on the waitlist.'')
           | Inr None \<Rightarrow>
               (case setItem_throws ls of
                  Some t \<Rightarrow> Inl t
                | None \<Rightarrow>
                    Inr (newEntry now name email phone,
                         ls\<lparr>item := Json_text (JArr (entries @ [newEntry now name email phone]))\<rparr>)))
      | _ \<Rightarrow> Inl TypeError)"

definition Waitlist_name :: "string \<Rightarrow> errors \<Rightarrow> errors" where
  "Waitlist_name v es =
     (if trim v = [] then set_err ''name'' ''Full name is required.'' es
      else if 100 < length (trim v)
      then set_err ''name'' ''Full name cannot exceed 100 characters.'' es
      else es)"

definition Waitlist_email :: "localStorage \<Rightarrow> string \<Rightarrow> errors \<Rightarrow> thrown + errors" where
  \<comment> \<open>The duplicate check is outside every \<^verbatim>\<open>try\<close>: what it throws, \<^verbatim>\<open>validate\<close> throws.\<close>
  "Waitlist_email ls v es =
     (if trim v = [] then Inr (set_err ''email'' ''Email address is required.'' es)
      else if test_anywhere EMAIL_RE v then
        (case isEmailOnWaitlist ls v of
           Inl t \<Rightarrow> Inl t
         | Inr dup \<Rightarrow>
             if dup
             then Inr (set_err ''email'' ''This email address is already on the waitlist.'' es)
             else Inr es)
      else Inr (set_err ''email'' ''Please enter a valid email address.'' es))"

definition Waitlist_phone :: "string \<Rightarrow> errors \<Rightarrow> errors" where
  \<comment> \<open>\<^verbatim>\<open>if (phone.trim() && !PHONE.test(phone)) ...\<close>\<close>
  "Waitlist_phone v es =
     (if trim v = [] \<or> matches WAITLIST_PHONE_RE v then es
      else set_err ''phone'' ''Please enter a valid phone number.'' es)"

definition Waitlist_validate :: "localStorage \<Rightarrow> WaitlistFormData \<Rightarrow> thrown + errors" where
  "Waitlist_validate ls fd =
     (case Waitlist_email ls (w_email fd) (Waitlist_name (w_name fd) []) of
        Inl t \<Rightarrow> Inl t
      | Inr e2 \<Rightarrow> Inr (Waitlist_phone (w_phone fd) e2))"

definition Waitlist_handleSubmit ::
  "localStorage \<Rightarrow> clock \<Rightarrow> WaitlistFormData form
     \<Rightarrow> thrown + WaitlistFormData form \<times> localStorage" where
  \<comment> \<open>The state and the storage when the handler has finished; \<open>Inl\<close> when the handler
      itself throws, which leaves both as they were.\<close>
  "Waitlist_handleSubmit ls now st =
     (case Waitlist_validate ls (formData st) of
        Inl t \<Rightarrow> Inl t
      | Inr validationErrors \<Rightarrow>
          if has_errors validationErrors then Inr (st\<lparr>errors := validationErrors\<rparr>, ls)
          else
            (case saveWaitlistEntry ls now (trim (w_name (formData st)))
                    (trim (w_email (formData st))) (trim (w_phone (formData st))) of
               Inr (savedEntry, ls') \<Rightarrow> Inr (st\<lparr>status := Success, errors := []\<rparr>, ls')
             | Inl t \<Rightarrow> Inr (st\<lparr>status := Error\<rparr>, ls)))"

section \<open>Notions of the specification\<close>

text \<open>
  The words of the claims that are not names of the source: a token that is a positive
  integer, a calendar date written as \<^verbatim>\<open>YYYY-MM-DD\<close>, a clock that reads a real date, and
  a date after the one the clock reads.
\<close>

definition positive_integer :: "string \<Rightarrow> bool" where
  \<comment> \<open>Decimal digits that denote a number above 0.\<close>
  "positive_integer t = (t \<noteq> [] \<and> list_all is_digit t \<and> 0 < digits_val t)"

definition pad2 :: "nat \<Rightarrow> string" where
  "pad2 n = [char_of (48 + n div 10 mod 10), char_of (48 + n mod 10)]"

definition pad4 :: "nat \<Rightarrow> string" where
  "pad4 n = pad2 (n div 100) @ pad2 (n mod 100)"

definition iso_date :: "int \<Rightarrow> int \<Rightarrow> int \<Rightarrow> string" where
  \<comment> \<open>The value of a date input: year, month (1 to 12) and day as \<^verbatim>\<open>YYYY-MM-DD\<close>.\<close>
  "iso_date y m d = pad4 (nat y) @ ''-'' @ pad2 (nat m) @ ''-'' @ pad2 (nat d)"

definition days_in_month :: "int \<Rightarrow> int \<Rightarrow> int" where
  "days_in_month y m =
     (if m = 2 then (if InLeapYear y then 29 else 28)
      else if m = 4 \<or> m = 6 \<or> m = 9 \<or> m = 11 then 30 else 31)"

definition calendar_date :: "int \<Rightarrow> int \<Rightarrow> int \<Rightarrow> bool" where
  \<comment> \<open>A date of the calendar with a year of four digits.\<close>
  "calendar_date y m d =
     (0 \<le> y \<and> y \<le> 9999 \<and> 1 \<le> m \<and> m \<le> 12 \<and> 1 \<le> d \<and> d \<le> days_in_month y m)"

definition valid_clock :: "clock \<Rightarrow> bool" where
  \<comment> \<open>The clock reads a date of the calendar, not before 1970, and a time of that day.\<close>
  "valid_clock now =
     (calendar_date (now_year now) (now_month now + 1) (now_date now)
      \<and> 1970 \<le> now_year now \<and> 0 \<le> now_ms now \<and> now_ms now < msPerDay)"

definition after_today :: "clock \<Rightarrow> int \<Rightarrow> int \<Rightarrow> int \<Rightarrow> bool" where
  \<comment> \<open>The date is strictly after the local date of the clock.\<close>
  "after_today now y m d =
     (now_year now < y
      \<or> (y = now_year now
          \<and> (now_month now + 1 < m \<or> (m = now_month now + 1 \<and> now_date now < d))))"

section \<open>Sample inputs\<close>

text \<open>
  A clock reading 10:30 in the morning of 15 June 2025, a complete configuration and one
  acceptable input for each form. The theorems below are tried on them.
\<close>

definition sample_clock :: clock where
  "sample_clock =
     \<lparr> now_year = 2025, now_month = 5, now_date = 15, now_ms = 37800000,
       now_iso = ''2025-06-15T14:30:00.000Z'', now_epoch = 1749997800000 \<rparr>"

definition sample_env :: env where
  "sample_env =
     \<lparr> BESTRX_USERNAME = Some ''webuser'', BESTRX_API_KEY = Some ''k-1'',
       BESTRX_PASSWORD = Some ''pw'', BESTRX_PHARMACY_NUMBER = Some ''0042'' \<rparr>"

definition sample_refill :: RefillFormData where
  "sample_refill =
     \<lparr> r_patientName = ''Ann Lee'', r_dob = ''1980-03-07'', r_phone = ''(614) 349-5140'',
       r_email = [], r_prescriptionNumbers = ''123, 456 789'', r_medicationNames = [],
       r_preferredService = pickup, r_notes = [], r_consent = True \<rparr>"

definition sample_transfer :: TransferFormData where
  "sample_transfer =
     \<lparr> t_rxNumber = ''4471'', t_rxFillDate = ''2025-01-10'',
       t_transferToPharmacyName = ''Main Street Pharmacy'',
       t_transferToPharmacyAddress1 = ''12 Main St'', t_transferToPharmacyAddress2 = [],
       t_transferToPharmacyCity = ''Columbus'', t_transferToPharmacyState = ''oh'',
       t_transferToPharmacyZip = ''43215'', t_transferToPharmacyPhone = ''614-349-5140'',
       t_transferToPharmacyNCPDP = [], t_transferRxRemark = [], t_consent = True \<rparr>"

definition sample_contact :: ContactFormData where
  "sample_contact =
     \<lparr> c_name = ''Ann Lee'', c_phone = ''614-349-5140'', c_email = ''ann@x.com'',
       c_reason = general, c_message = [], c_consent = True \<rparr>"

definition sample_splash :: SplashModalFormData where
  "sample_splash = \<lparr> s_email = ''ann@x.com'' \<rparr>"

definition sample_waitlist :: WaitlistFormData where
  "sample_waitlist = \<lparr> w_name = ''Ann Lee'', w_email = ''A@x.com'', w_phone = [] \<rparr>"

definition empty_storage :: localStorage where
  "empty_storage = \<lparr> getItem_throws = False, setItem_throws = None, item = Missing \<rparr>"

definition start :: "'f \<Rightarrow> 'f form" where
  \<comment> \<open>A form as it stands before a first submission.\<close>
  "start fd = \<lparr> formData = fd, errors = [], status = Idle \<rparr>"

definition api_start :: "'f \<Rightarrow> 'f api_form" where
  "api_start fd = \<lparr> formData = fd, errors = [], status = Idle, apiError = None \<rparr>"

definition error0082_response :: response where
  \<comment> \<open>Status 200 with \<^verbatim>\<open>{"ErrorCode": "ERROR0082", "Data": {"RxTransferred": true}}\<close>\<close>
  "error0082_response =
     \<lparr> resp_status = 200,
       resp_body = Parsed (JObj [(''ErrorCode'', JStr ''ERROR0082''),
                                 (''Data'', JObj [(''RxTransferred'', JBool True)])]) \<rparr>"

definition null_storage :: localStorage where
  \<comment> \<open>The text \<^verbatim>\<open>null\<close> under the key of the waitlist.\<close>
  "null_storage = \<lparr> getItem_throws = False, setItem_throws = None, item = Json_text JNull \<rparr>"

section \<open>Evaluation\<close>

text \<open>
  The definitions a concrete input is evaluated with, and the sample inputs evaluated.
\<close>

lemmas char_defs = is_ws_def is_digit_def digit_val_def is_upper_def not_ws_def any_char_def sep_char_def
lemmas number_defs = trim_def Number_def numeric_literal_def unsigned_decimal_def
  exponent_part_def digits_val_def radix_literal_def hex_val_def negate_def isNaN_def
lemmas date_defs = selectedDate_def dateParts_def nth_num_def minus_one_def new_Date_def to_integer_def
  TimeClip_def MakeDay_def msPerDay_def DayFromYear_def InLeapYear_def month_start_def today_def
  twoYearsAgo_def date_gt_def date_lt_def

lemma Rep_numeral: "Rep (numeral k) r = Seq r (Rep (pred_numeral k) r)"
  by (simp add: numeral_eq_Suc)

lemmas rx_defs = Opt_def Plus_def Lit_def test_anywhere_def EMAIL_RE_def US_PHONE_RE_def
  WAITLIST_PHONE_RE_def STATE_RE_def ZIP_RE_def NCPDP_RE_def Rep_numeral

lemma map_of_set_err: "map_of (set_err k v es) k' = (if k' = k then Some v else map_of es k')"
  by (induction es) auto

lemma map_of_if: "map_of (if c then xs else ys) k = (if c then map_of xs k else map_of ys k)"
  by simp

lemmas check_defs = required_def at_most_def us_phone_def email_required_def consent_given_def
  Refill_dob_def Refill_email_def Refill_prescriptionNumbers_def Transfer_rxNumber_def
  Transfer_rxFillDate_def Transfer_state_def Transfer_zip_def Transfer_NCPDP_def
  Contact_message_def Waitlist_name_def Waitlist_phone_def

text \<open>A statement of a validator leaves the errors of the other fields as they are.\<close>

lemma other_field:
  "k \<noteq> field \<Longrightarrow> map_of (required v field m es) k = map_of es k"
  "k \<noteq> field \<Longrightarrow> map_of (at_most n v field m es) k = map_of es k"
  "k \<noteq> field \<Longrightarrow> map_of (us_phone v field m es) k = map_of es k"
  "k \<noteq> ''email'' \<Longrightarrow> map_of (email_required v es) k = map_of es k"
  "k \<noteq> ''consent'' \<Longrightarrow> map_of (consent_given c m es) k = map_of es k"
  "k \<noteq> ''dob'' \<Longrightarrow> map_of (Refill_dob now v es) k = map_of es k"
  "k \<noteq> ''email'' \<Longrightarrow> map_of (Refill_email v es) k = map_of es k"
  "k \<noteq> ''prescriptionNumbers'' \<Longrightarrow> map_of (Refill_prescriptionNumbers v es) k = map_of es k"
  "k \<noteq> ''rxNumber'' \<Longrightarrow> map_of (Transfer_rxNumber v es) k = map_of es k"
  "k \<noteq> ''rxFillDate'' \<Longrightarrow> map_of (Transfer_rxFillDate now v es) k = map_of es k"
  "k \<noteq> ''transferToPharmacyState'' \<Longrightarrow> map_of (Transfer_state v es) k = map_of es k"
  "k \<noteq> ''transferToPharmacyZip'' \<Longrightarrow> map_of (Transfer_zip v es) k = map_of es k"
  "k \<noteq> ''transferToPharmacyNCPDP'' \<Longrightarrow> map_of (Transfer_NCPDP v es) k = map_of es k"
  "k \<noteq> ''message'' \<Longrightarrow> map_of (Contact_message r v es) k = map_of es k"
  "k \<noteq> ''name'' \<Longrightarrow> map_of (Waitlist_name v es) k = map_of es k"
  "k \<noteq> ''phone'' \<Longrightarrow> map_of (Waitlist_phone v es) k = map_of es k"
  by (simp_all add: check_defs map_of_set_err Let_def)

lemma set_err_not_Nil: "set_err k v es \<noteq> []"
  by (cases es) (auto split: if_splits)

lemma sample_phone_paren: "matches US_PHONE_RE ''(614) 349-5140''"
  by (simp add: rx_defs char_defs)

lemma sample_phone_dash: "matches US_PHONE_RE ''614-349-5140''"
  by (simp add: rx_defs char_defs)

lemma sample_zip: "matches ZIP_RE ''43215''"
  by (simp add: rx_defs char_defs)

lemma sample_state: "matches STATE_RE (toUpperCase ''oh'')"
  by (simp add: rx_defs char_defs toUpperCase_def upper_char_def)

lemma sample_email: "test_anywhere EMAIL_RE ''ann@x.com''"
  by (simp add: rx_defs char_defs)

lemma sample_tokens: "rx_tokens ''123, 456 789'' = [''123'', ''456'', ''789'']"
  by (simp add: rx_tokens_def rx_sep_def trim_def char_defs)

lemma sample_numbers:
  "Number ''123'' = Num 123" "Number ''456'' = Num 456" "Number ''789'' = Num 789"
  "Number ''4471'' = Num 4471"
  by (simp_all add: number_defs char_defs)

lemma sample_dob: "selectedDate ''1980-03-07'' = Some (3718 * 86400000)"
  by (simp add: date_defs number_defs char_defs)

lemma sample_fill: "selectedDate ''2025-01-10'' = Some (20098 * 86400000)"
  by (simp add: date_defs number_defs char_defs)

lemma sample_today: "today sample_clock = Some (20254 * 86400000)"
  by (simp add: date_defs sample_clock_def)

lemma sample_twoYearsAgo: "twoYearsAgo sample_clock = Some (19523 * 86400000 + 37800000)"
  by (simp add: date_defs sample_clock_def)

lemma sample_refill_valid: "Refill_validate sample_clock sample_refill = []"
  by (simp add: Refill_validate_def check_defs sample_refill_def sample_phone_paren
        sample_tokens sample_numbers sample_dob sample_today date_gt_def isNaN_def trim_def
        char_defs
      del: matches.simps)

lemma sample_transfer_valid: "Transfer_validate sample_clock sample_transfer = []"
  by (simp add: Transfer_validate_def check_defs sample_transfer_def
        sample_phone_dash sample_zip sample_state sample_numbers sample_fill sample_today
        sample_twoYearsAgo date_gt_def date_lt_def isNaN_def not_positive_def trim_def char_defs
      del: matches.simps)

section \<open>Missing credentials\<close>

text \<open>
  Claim C6. For the refill form and the transfer form alike: when the form passes
  validation and one of the credentials the adapter needs (user name, API key or
  password, pharmacy number) is absent from the configuration, the handler ends in the
  error state with the message of a configuration error, and no request has been sent.
\<close>

theorem missing_credentials_no_request:
  "(Refill_validate now (formData rs) = []
      \<and> (missing (BESTRX_USERNAME ev) \<or> missing (BESTRX_API_KEY ev)
           \<or> missing (BESTRX_PHARMACY_NUMBER ev))
    \<longrightarrow> Refill_handleSubmit ev now net rs
          = (rs\<lparr>apiError := Some ''Service configuration error. Please contact support.'',
                 status := Error\<rparr>, []))
   \<and> (Transfer_validate now (formData ts) = []
        \<and> (missing (BESTRX_USERNAME ev) \<or> missing (BESTRX_PASSWORD ev)
             \<or> missing (BESTRX_PHARMACY_NUMBER ev))
      \<longrightarrow> Transfer_handleSubmit ev now net' ts
            = (ts\<lparr>apiError := Some ''Service configuration error. Please contact support.'',
                   status := Error\<rparr>, []))"
  by (simp add: Refill_handleSubmit_def Transfer_handleSubmit_def has_errors_def)

theorem missing_credentials_witness:
  "Refill_validate sample_clock (formData (api_start sample_refill)) = []
   \<and> missing (BESTRX_PHARMACY_NUMBER (sample_env\<lparr>BESTRX_PHARMACY_NUMBER := None\<rparr>))
   \<and> Refill_handleSubmit (sample_env\<lparr>BESTRX_PHARMACY_NUMBER := None\<rparr>) sample_clock
        (Rejected Other) (api_start sample_refill)
      = (\<lparr>formData = sample_refill, errors = [], status = Error,
          apiError = Some ''Service configuration error. Please contact support.''\<rparr>, [])
   \<and> Transfer_validate sample_clock (formData (api_start sample_transfer)) = []
   \<and> Transfer_handleSubmit (sample_env\<lparr>BESTRX_PHARMACY_NUMBER := None\<rparr>) sample_clock
        (Rejected Other) (api_start sample_transfer)
      = (\<lparr>formData = sample_transfer, errors = [], status = Error,
          apiError = Some ''Service configuration error. Please contact support.''\<rparr>, [])"
  using missing_credentials_no_request
          [of sample_clock "api_start sample_refill"
              "sample_env\<lparr>BESTRX_PHARMACY_NUMBER := None\<rparr>" "Rejected Other"
              "api_start sample_transfer" "Rejected Other"]
  by (simp add: sample_refill_valid sample_transfer_valid api_start_def missing_def)

section \<open>The refill adapter on the prescription numbers of the specification\<close>


lemma sample_split: "split_runs rx_sep [] ''123, 456 789'' = [''123'', ''456'', ''789'']"
  by (simp add: rx_sep_def char_defs)

lemma bad_split: "split_runs rx_sep [] ''123, abc'' = [''123'', ''abc'']"
  by (simp add: rx_sep_def char_defs)

lemma bad_number: "Number ''abc'' = NaN"
  by (simp add: number_defs char_defs)

lemma trim_samples:
  "trim ''123'' = ''123''" "trim ''456'' = ''456''" "trim ''789'' = ''789''" "trim ''abc'' = ''abc''"
  "trim ''123, 456 789'' = ''123, 456 789''" "trim ''123, abc'' = ''123, abc''"
  by (simp_all add: trim_def char_defs)

lemma sample_rxNumbers:
  "rxNumbers (fd\<lparr>r_prescriptionNumbers := ''123, 456 789''\<rparr>) = [Num 123, Num 456, Num 789]"
  by (simp add: rxNumbers_def sample_split trim_samples sample_numbers isNaN_def
      del: split_runs.simps)

text \<open>
  Claim C5. With \<^verbatim>\<open>"123, 456 789"\<close> as the prescription numbers of a refill form, whatever
  the other fields hold, the validator reports no error for that field and the payload
  of the adapter lists exactly the three numbers 123, 456 and 789 in that order; when
  the form is valid and the credentials are configured, that payload is the one request
  sent. With \<^verbatim>\<open>"123, abc"\<close> the validator reports the error of the whole field.
\<close>

theorem refill_numbers_example:
  "map_of (Refill_validate now (fd\<lparr>r_prescriptionNumbers := ''123, 456 789''\<rparr>))
      ''prescriptionNumbers'' = None
   \<and> RxInRefillRequest (Refill_payload ev now (fd\<lparr>r_prescriptionNumbers := ''123, 456 789''\<rparr>))
       = [Num 123, Num 456, Num 789]
   \<and> (Refill_validate now (fd\<lparr>r_prescriptionNumbers := ''123, 456 789''\<rparr>) = []
        \<and> \<not> missing (BESTRX_USERNAME ev) \<and> \<not> missing (BESTRX_API_KEY ev)
        \<and> \<not> missing (BESTRX_PHARMACY_NUMBER ev)
      \<longrightarrow> snd (Refill_handleSubmit ev now net
                 (st\<lparr>formData := fd\<lparr>r_prescriptionNumbers := ''123, 456 789''\<rparr>\<rparr>))
            = [SendRefillRequest
                 (Refill_payload ev now (fd\<lparr>r_prescriptionNumbers := ''123, 456 789''\<rparr>))])
   \<and> map_of (Refill_validate now (fd\<lparr>r_prescriptionNumbers := ''123, abc''\<rparr>))
         ''prescriptionNumbers''
       = Some ''Please enter valid, numeric prescription number(s).''"
proof -
  let ?good = "fd\<lparr>r_prescriptionNumbers := ''123, 456 789''\<rparr>"
  let ?bad = "fd\<lparr>r_prescriptionNumbers := ''123, abc''\<rparr>"
  have accepted: "map_of (Refill_validate now ?good) ''prescriptionNumbers'' = None"
    by (simp add: Refill_validate_def Let_def other_field Refill_prescriptionNumbers_def
          rx_tokens_def sample_split trim_samples sample_numbers isNaN_def
        del: split_runs.simps)
  have payload: "RxInRefillRequest (Refill_payload ev now ?good) = [Num 123, Num 456, Num 789]"
    by (simp add: Refill_payload_def sample_rxNumbers)
  have sent: "snd (Refill_handleSubmit ev now net (st\<lparr>formData := ?good\<rparr>))
              = [SendRefillRequest (Refill_payload ev now ?good)]"
    if "Refill_validate now ?good = []" "\<not> missing (BESTRX_USERNAME ev)"
       "\<not> missing (BESTRX_API_KEY ev)" "\<not> missing (BESTRX_PHARMACY_NUMBER ev)"
    using that
    by (simp add: Refill_handleSubmit_def has_errors_def sample_rxNumbers
          split: sum.splits option.splits)
  have rejected: "map_of (Refill_validate now ?bad) ''prescriptionNumbers''
                  = Some ''Please enter valid, numeric prescription number(s).''"
    by (simp add: Refill_validate_def Let_def other_field Refill_prescriptionNumbers_def
          map_of_set_err rx_tokens_def bad_split trim_samples sample_numbers bad_number
          isNaN_def
        del: split_runs.simps)
  from accepted payload sent rejected show ?thesis by blast
qed

lemma sample_refill_payload:
  "Refill_payload sample_env sample_clock sample_refill
   = \<lparr>userName = ''webuser'', APIKey = ''k-1'', PharmacyNumber = ''0042'', LastName = ''Lee'',
       DOB = ''1980-03-07'', Phone = ''6143495140'',
       RequestDateTime = ''2025-06-15T14:30:00.000Z'', DeliveryOption = 1, RequestType = 1,
       RxInRefillRequest = [Num 123, Num 456, Num 789], Notes = []\<rparr>"
proof -
  have "rxNumbers sample_refill = [Num 123, Num 456, Num 789]"
    using sample_rxNumbers [of sample_refill] by (simp add: sample_refill_def)
  moreover have "getLastName ''Ann Lee'' = ''Lee''"
    by (simp add: getLastName_def trim_def char_defs)
  moreover have "digits_only ''(614) 349-5140'' = ''6143495140''"
    by (simp add: digits_only_def char_defs)
  ultimately show ?thesis
    by (simp add: Refill_payload_def sample_refill_def sample_env_def sample_clock_def)
qed

theorem refill_numbers_witness:
  "Refill_validate sample_clock (sample_refill\<lparr>r_prescriptionNumbers := ''123, 456 789''\<rparr>) = []
   \<and> \<not> missing (BESTRX_USERNAME sample_env) \<and> \<not> missing (BESTRX_API_KEY sample_env)
   \<and> \<not> missing (BESTRX_PHARMACY_NUMBER sample_env)
   \<and> snd (Refill_handleSubmit sample_env sample_clock (Rejected Other) (api_start sample_refill))
       = [SendRefillRequest
            \<lparr>userName = ''webuser'', APIKey = ''k-1'', PharmacyNumber = ''0042'',
               LastName = ''Lee'', DOB = ''1980-03-07'', Phone = ''6143495140'',
               RequestDateTime = ''2025-06-15T14:30:00.000Z'', DeliveryOption = 1,
               RequestType = 1, RxInRefillRequest = [Num 123, Num 456, Num 789],
               Notes = []\<rparr>]"
proof -
  have same: "sample_refill\<lparr>r_prescriptionNumbers := ''123, 456 789''\<rparr> = sample_refill"
    by (simp add: sample_refill_def)
  have start: "(api_start sample_refill)\<lparr>formData := sample_refill\<rparr> = api_start sample_refill"
    by (simp add: api_start_def)
  have creds: "\<not> missing (BESTRX_USERNAME sample_env)" "\<not> missing (BESTRX_API_KEY sample_env)"
    "\<not> missing (BESTRX_PHARMACY_NUMBER sample_env)"
    by (simp_all add: sample_env_def missing_def)
  from refill_numbers_example
         [of sample_clock sample_refill sample_env "Rejected Other" "api_start sample_refill"]
  show ?thesis
    by (simp add: same start creds sample_refill_valid sample_refill_payload)
qed

section \<open>A vendor error under status 200\<close>

text \<open>
  Claim C1, at an input where the handler does not do what the claim says. The answer
  has status 200 and carries \<^verbatim>\<open>ErrorCode: "ERROR0082"\<close> together with
  \<^verbatim>\<open>Data.RxTransferred = true\<close>. The test for that code sits in the branch for answers
  that are not ok, which an answer of status 200 never enters; the handler ends in the
  success state with no error message.
\<close>

theorem error0082_under_200_ends_in_success:
  "fst (Transfer_handleSubmit sample_env sample_clock (Responded error0082_response)
          (api_start sample_transfer))
   = \<lparr>formData = sample_transfer, errors = [], status = Success, apiError = None\<rparr>"
proof -
  have "Transfer_try (Responded error0082_response) = Inr None"
    by (simp add: Transfer_try_def ok_def error0082_response_def Transfer_result_def get_def
          own_prop_def get_opt_def truthy_def)
  then show ?thesis
    by (simp add: Transfer_handleSubmit_def sample_transfer_valid has_errors_def api_start_def
          sample_env_def missing_def)
qed

section \<open>A fill date exactly two years back\<close>

text \<open>
  Claim C3, at an input where the validator does not do what the claim says. The clock
  reads 10:30 on 15 June 2025 and the fill date is 15 June 2023, exactly two years
  before today. The validator compares the midnight of the fill date with the instant
  two years before now, time of day included, and reports that the date is more than
  two years ago. With the clock at midnight the same date passes.
\<close>

theorem fill_date_two_years_back_rejected:
  "map_of (Transfer_validate sample_clock (sample_transfer\<lparr>t_rxFillDate := ''2023-06-15''\<rparr>))
     ''rxFillDate'' = Some ''Fill date cannot be more than 2 years ago.''
   \<and> map_of (Transfer_validate (sample_clock\<lparr>now_ms := 0\<rparr>)
               (sample_transfer\<lparr>t_rxFillDate := ''2023-06-15''\<rparr>)) ''rxFillDate'' = None"
proof -
  have d: "selectedDate ''2023-06-15'' = Some (19523 * 86400000)"
    by (simp add: date_defs number_defs char_defs)
  have t: "today (sample_clock\<lparr>now_ms := 0\<rparr>) = Some (20254 * 86400000)"
    "twoYearsAgo (sample_clock\<lparr>now_ms := 0\<rparr>) = Some (19523 * 86400000)"
    by (simp_all add: date_defs sample_clock_def)
  have tr: "trim ''2023-06-15'' = ''2023-06-15''"
    by (simp add: trim_def char_defs)
  show ?thesis
    by (simp add: Transfer_validate_def Let_def other_field Transfer_rxFillDate_def
          map_of_set_err d t tr sample_today sample_twoYearsAgo date_gt_def date_lt_def)
qed

section \<open>Stored text that is no array\<close>

text \<open>
  Claim C10, at an input where the code does not do what the claim says. The storage
  holds the text \<^verbatim>\<open>null\<close>, which is well-formed JSON. \<^verbatim>\<open>getWaitlistEntries\<close> returns
  \<^verbatim>\<open>null\<close>, not a list; the duplicate check then throws a TypeError, and so do the
  validator and the submit handler of the waitlist form.
\<close>

theorem null_text_breaks_waitlist:
  "getWaitlistEntries null_storage = JNull
   \<and> isEmailOnWaitlist null_storage ''A@x.com'' = Inl TypeError
   \<and> Waitlist_validate null_storage sample_waitlist = Inl TypeError
   \<and> Waitlist_handleSubmit null_storage sample_clock (start sample_waitlist) = Inl TypeError"
proof -
  have g: "getWaitlistEntries null_storage = JNull"
    by (simp add: getWaitlistEntries_def null_storage_def)
  have i: "isEmailOnWaitlist null_storage ''A@x.com'' = Inl TypeError"
    by (simp add: isEmailOnWaitlist_def g)
  have e: "test_anywhere EMAIL_RE ''A@x.com''"
    by (simp add: rx_defs char_defs)
  have v: "Waitlist_validate null_storage sample_waitlist = Inl TypeError"
    by (simp add: Waitlist_validate_def Waitlist_email_def sample_waitlist_def i e trim_def
          char_defs)
  have h: "Waitlist_handleSubmit null_storage sample_clock (start sample_waitlist) = Inl TypeError"
    by (simp add: Waitlist_handleSubmit_def start_def v)
  from g i v h show ?thesis by simp
qed

text \<open>
  What does hold of \<^verbatim>\<open>getWaitlistEntries\<close>: it never throws, and it returns the empty
  list when the storage cannot be read, holds nothing, holds the empty string or holds
  text that does not parse.
\<close>

lemma getWaitlistEntries_empty:
  "getItem_throws ls \<or> item ls = Missing \<or> item ls = Empty_text \<or> item ls = Malformed
   \<Longrightarrow> getWaitlistEntries ls = JArr []"
  by (auto simp: getWaitlistEntries_def)

section \<open>Consent\<close>

lemma sample_contact_valid: "Contact_validate sample_contact = []"
  by (simp add: Contact_validate_def check_defs sample_contact_def sample_phone_dash
        sample_email trim_def char_defs
      del: matches.simps)

lemma sample_splash_valid: "Splash_validate sample_splash = []"
  by (simp add: Splash_validate_def check_defs sample_splash_def sample_email trim_def char_defs)

lemma sample_waitlist_email: "test_anywhere EMAIL_RE ''A@x.com''"
  by (simp add: rx_defs char_defs)

lemma sample_waitlist_valid: "Waitlist_validate empty_storage sample_waitlist = Inr []"
  by (simp add: Waitlist_validate_def Waitlist_email_def check_defs isEmailOnWaitlist_def
        getWaitlistEntries_def empty_storage_def sample_waitlist_def sample_waitlist_email
        trim_def char_defs)

text \<open>
  Claim C2 as stated fails on two of the five forms: the waitlist form and the
  promotional signup have no consent field, and a submission that carries no consent
  goes through. Here both end in the success state, and the waitlist entry is stored.
\<close>

theorem no_consent_field_counterexample:
  "Waitlist_handleSubmit empty_storage sample_clock (start sample_waitlist)
   = Inr (\<lparr>formData = sample_waitlist, errors = [], status = Success\<rparr>,
          \<lparr>getItem_throws = False, setItem_throws = None,
             item = Json_text (JArr [newEntry sample_clock ''Ann Lee'' ''A@x.com'' []])\<rparr>)
   \<and> Splash_handleSubmit (start sample_splash)
       = (\<lparr>formData = sample_splash, errors = [], status = Success\<rparr>, [Wait 1000, Log])"
proof -
  have t: "trim ''Ann Lee'' = ''Ann Lee''" "trim ''A@x.com'' = ''A@x.com''" "trim [] = []"
    by (simp_all add: trim_def char_defs)
  have w: "saveWaitlistEntry empty_storage sample_clock ''Ann Lee'' ''A@x.com'' []
           = Inr (newEntry sample_clock ''Ann Lee'' ''A@x.com'' [],
                  empty_storage\<lparr>item := Json_text
                    (JArr [newEntry sample_clock ''Ann Lee'' ''A@x.com'' []])\<rparr>)"
    by (simp add: saveWaitlistEntry_def getWaitlistEntries_def empty_storage_def)
  have "Waitlist_handleSubmit empty_storage sample_clock (start sample_waitlist)
        = Inr (\<lparr>formData = sample_waitlist, errors = [], status = Success\<rparr>,
               \<lparr>getItem_throws = False, setItem_throws = None,
                  item = Json_text (JArr [newEntry sample_clock ''Ann Lee'' ''A@x.com'' []])\<rparr>)"
    using sample_waitlist_valid w
    by (simp add: Waitlist_handleSubmit_def start_def has_errors_def sample_waitlist_def t
          empty_storage_def)
  moreover have "Splash_handleSubmit (start sample_splash)
        = (\<lparr>formData = sample_splash, errors = [], status = Success\<rparr>, [Wait 1000, Log])"
    by (simp add: Splash_handleSubmit_def start_def sample_splash_valid has_errors_def)
  ultimately show ?thesis by simp
qed

text \<open>
  Claim C2, amended. On each of the three forms that have a consent field (contact,
  refill, transfer), a submission with consent = false is blocked whatever the other
  fields hold: the validator reports an error for the field consent, the handler stores
  the errors and returns, the status is what it was (an idle form stays idle), and no
  request is sent.
\<close>

theorem consent_false_blocks_submission:
  "map_of (Contact_validate (cf\<lparr>c_consent := False\<rparr>)) ''consent''
     = Some ''You must acknowledge the statement to proceed.''
   \<and> Contact_handleSubmit (cs\<lparr>formData := cf\<lparr>c_consent := False\<rparr>\<rparr>)
       = (cs\<lparr>formData := cf\<lparr>c_consent := False\<rparr>,
              errors := Contact_validate (cf\<lparr>c_consent := False\<rparr>)\<rparr>, [])
   \<and> map_of (Refill_validate now (rf\<lparr>r_consent := False\<rparr>)) ''consent''
       = Some ''You must acknowledge the statement to proceed.''
   \<and> Refill_handleSubmit ev now net (rs\<lparr>formData := rf\<lparr>r_consent := False\<rparr>\<rparr>)
       = (rs\<lparr>formData := rf\<lparr>r_consent := False\<rparr>, apiError := None,
              errors := Refill_validate now (rf\<lparr>r_consent := False\<rparr>)\<rparr>, [])
   \<and> map_of (Transfer_validate now (tf\<lparr>t_consent := False\<rparr>)) ''consent''
       = Some ''You must authorize this transfer request.''
   \<and> Transfer_handleSubmit ev now net' (ts\<lparr>formData := tf\<lparr>t_consent := False\<rparr>\<rparr>)
       = (ts\<lparr>formData := tf\<lparr>t_consent := False\<rparr>, apiError := None,
              errors := Transfer_validate now (tf\<lparr>t_consent := False\<rparr>)\<rparr>, [])"
proof -
  have c: "Contact_validate (cf\<lparr>c_consent := False\<rparr>) \<noteq> []"
    by (simp add: Contact_validate_def Let_def consent_given_def set_err_not_Nil)
  have r: "Refill_validate now (rf\<lparr>r_consent := False\<rparr>) \<noteq> []"
    by (simp add: Refill_validate_def Let_def consent_given_def set_err_not_Nil)
  have t: "Transfer_validate now (tf\<lparr>t_consent := False\<rparr>) \<noteq> []"
    by (simp add: Transfer_validate_def Let_def consent_given_def set_err_not_Nil)
  have "map_of (Contact_validate (cf\<lparr>c_consent := False\<rparr>)) ''consent''
        = Some ''You must acknowledge the statement to proceed.''"
    by (simp add: Contact_validate_def Let_def consent_given_def map_of_set_err)
  moreover have "map_of (Refill_validate now (rf\<lparr>r_consent := False\<rparr>)) ''consent''
        = Some ''You must acknowledge the statement to proceed.''"
    by (simp add: Refill_validate_def Let_def consent_given_def map_of_set_err)
  moreover have "map_of (Transfer_validate now (tf\<lparr>t_consent := False\<rparr>)) ''consent''
        = Some ''You must authorize this transfer request.''"
    by (simp add: Transfer_validate_def Let_def consent_given_def map_of_set_err)
  moreover have "Contact_handleSubmit (cs\<lparr>formData := cf\<lparr>c_consent := False\<rparr>\<rparr>)
       = (cs\<lparr>formData := cf\<lparr>c_consent := False\<rparr>,
              errors := Contact_validate (cf\<lparr>c_consent := False\<rparr>)\<rparr>, [])"
    using c by (simp add: Contact_handleSubmit_def has_errors_def)
  moreover have "Refill_handleSubmit ev now net (rs\<lparr>formData := rf\<lparr>r_consent := False\<rparr>\<rparr>)
       = (rs\<lparr>formData := rf\<lparr>r_consent := False\<rparr>, apiError := None,
              errors := Refill_validate now (rf\<lparr>r_consent := False\<rparr>)\<rparr>, [])"
    using r by (simp add: Refill_handleSubmit_def has_errors_def)
  moreover have "Transfer_handleSubmit ev now net' (ts\<lparr>formData := tf\<lparr>t_consent := False\<rparr>\<rparr>)
       = (ts\<lparr>formData := tf\<lparr>t_consent := False\<rparr>, apiError := None,
              errors := Transfer_validate now (tf\<lparr>t_consent := False\<rparr>)\<rparr>, [])"
    using t by (simp add: Transfer_handleSubmit_def has_errors_def)
  ultimately show ?thesis by blast
qed

section \<open>The contact form and the promotional signup do not reach a backend\<close>

text \<open>
  Claim C9 as stated fails: on a valid contact form and a valid promotional signup the
  handler performs no create operation and obtains no identifier of a record. All it
  does is wait a second and write a line to the console.
\<close>

theorem no_create_operation_counterexample:
  "Contact_handleSubmit (start sample_contact)
   = (\<lparr>formData = Contact_initial, errors = [], status = Success\<rparr>, [Wait 1000, Log])
   \<and> snd (Splash_handleSubmit (start sample_splash)) = [Wait 1000, Log]"
  by (simp add: Contact_handleSubmit_def Splash_handleSubmit_def start_def sample_contact_valid
        sample_splash_valid has_errors_def)

text \<open>
  Claim C9, amended. For every valid contact submission and every valid promotional
  signup the handler ends in the success state (the contact form is reset to its initial
  values) and the only effects are the mock call: a timer of one second and a line on
  the console. No create operation is performed and no identifier is returned.
\<close>

theorem valid_submission_is_mock_call:
  "(Contact_validate (formData cs) = []
      \<longrightarrow> Contact_handleSubmit cs
            = (cs\<lparr>status := Success, errors := [], formData := Contact_initial\<rparr>,
               [Wait 1000, Log]))
   \<and> (Splash_validate (formData ss) = []
        \<longrightarrow> Splash_handleSubmit ss = (ss\<lparr>status := Success, errors := []\<rparr>, [Wait 1000, Log]))"
  by (simp add: Contact_handleSubmit_def Splash_handleSubmit_def has_errors_def)

theorem valid_submission_is_mock_call_witness:
  "Contact_validate (formData (start sample_contact)) = []
   \<and> Contact_handleSubmit (start sample_contact)
       = (\<lparr>formData = Contact_initial, errors = [], status = Success\<rparr>, [Wait 1000, Log])
   \<and> Splash_validate (formData (start sample_splash)) = []
   \<and> Splash_handleSubmit (start sample_splash)
       = (\<lparr>formData = sample_splash, errors = [], status = Success\<rparr>, [Wait 1000, Log])"
  using valid_submission_is_mock_call [of "start sample_contact" "start sample_splash"]
  by (simp add: start_def sample_contact_valid sample_splash_valid)

section \<open>Numbers written in decimal digits\<close>

lemma digit_not_ws: "is_digit c \<Longrightarrow> \<not> is_ws c"
  by (auto simp: is_digit_def is_ws_def)

lemma trim_id:
  assumes "s = [] \<or> (\<not> is_ws (hd s) \<and> \<not> is_ws (last s))"
  shows "trim s = s"
proof (cases "s = []")
  case True
  then show ?thesis by (simp add: trim_def)
next
  case False
  with assms have "dropWhile is_ws s = s"
    by (simp add: dropWhile_eq_self_iff)
  moreover from False assms have "dropWhile is_ws (rev s) = rev s"
    by (simp add: dropWhile_eq_self_iff hd_rev)
  ultimately show ?thesis by (simp add: trim_def)
qed

lemma trim_digits: "list_all is_digit s \<Longrightarrow> trim s = s"
proof (cases s)
  case Nil
  then show ?thesis by (simp add: trim_def)
next
  case (Cons c cs)
  assume "list_all is_digit s"
  then have "is_digit (hd s)" "is_digit (last s)"
    using Cons by (auto simp: list_all_iff)
  then show ?thesis
    using trim_id [of s] digit_not_ws by blast
qed

lemma digit_not_letter:
  "is_digit c \<Longrightarrow> c \<notin> {CHR ''x'', CHR ''X'', CHR ''o'', CHR ''O'', CHR ''b'', CHR ''B'',
                        CHR ''-'', CHR ''+'', CHR ''I'', CHR ''.'', CHR ''e'', CHR ''E''}"
  by (auto simp: is_digit_def)

lemma numeric_literal_digits:
  assumes "s \<noteq> []" "list_all is_digit s"
  shows "numeric_literal s = unsigned_decimal s"
proof -
  obtain c cs where s: "s = c # cs" using assms(1) by (cases s) auto
  have c: "is_digit c" using assms(2) s by simp
  have cs: "cs = [] \<or> is_digit (hd cs)" using assms(2) s by (cases cs) auto
  have no_radix: "\<not> starts_with [CHR ''0'', x] s"
    if "x \<in> {CHR ''x'', CHR ''X'', CHR ''o'', CHR ''O'', CHR ''b'', CHR ''B''}" for x
    using cs that digit_not_letter [of "hd cs"] s by (cases cs) auto
  have no_sign: "\<not> starts_with ''-'' s" "\<not> starts_with ''+'' s"
    using c digit_not_letter [of c] s by auto
  show ?thesis
    using no_radix no_sign by (simp add: numeric_literal_def)
qed

lemma unsigned_decimal_digits:
  assumes "s \<noteq> []" "list_all is_digit s"
  shows "unsigned_decimal s = Num (of_nat (digits_val s))"
proof -
  have inf: "s \<noteq> ''Infinity''"
    using assms(2) digit_not_letter [of "CHR ''I''"] by (auto simp: is_digit_def)
  have tw: "takeWhile is_digit s = s" and dw: "dropWhile is_digit s = []"
    using assms(2) by (auto simp: list_all_iff)
  have zero: "digits_val [] = 0"
    by (simp add: digits_val_def)
  show ?thesis
    unfolding unsigned_decimal_def Let_def tw dw
    using assms(1) inf by (simp add: exponent_part_def zero)
qed

lemma Number_digits:
  "s \<noteq> [] \<Longrightarrow> list_all is_digit s \<Longrightarrow> Number s = Num (of_nat (digits_val s))"
  by (simp add: Number_def trim_digits numeric_literal_digits unsigned_decimal_digits)

lemma trim_Nil_iff: "trim s = [] \<longleftrightarrow> list_all is_ws s"
proof
  assume "trim s = []"
  then have all: "\<forall>x\<in>set (dropWhile is_ws s). is_ws x"
    by (simp add: trim_def)
  have "dropWhile is_ws s = []"
  proof (rule ccontr)
    assume ne: "dropWhile is_ws s \<noteq> []"
    then have "\<not> is_ws (hd (dropWhile is_ws s))" by (rule hd_dropWhile)
    moreover have "hd (dropWhile is_ws s) \<in> set (dropWhile is_ws s)" using ne by simp
    ultimately show False using all by blast
  qed
  then show "list_all is_ws s" by (simp add: list_all_iff)
next
  assume "list_all is_ws s"
  then have d: "dropWhile is_ws s = []" by (simp add: list_all_iff)
  show "trim s = []" unfolding trim_def d by simp
qed

lemma split_runs_all_sep:
  assumes "list_all sep s"
  shows "split_runs sep [] s = (if s = [] then [[]] else [[], []])"
proof (cases s)
  case Nil
  then show ?thesis by simp
next
  case (Cons c cs)
  with assms have c: "sep c" and d: "dropWhile sep cs = []"
    by (simp_all add: list_all_iff)
  show ?thesis unfolding Cons using c by (simp add: d)
qed

lemma rx_tokens_blank: "trim p = [] \<Longrightarrow> rx_tokens p = []"
proof -
  assume "trim p = []"
  then have "list_all is_ws p" by (simp add: trim_Nil_iff)
  then have "list_all rx_sep p" by (auto simp: list_all_iff rx_sep_def)
  then have "split_runs rx_sep [] p = (if p = [] then [[]] else [[], []])"
    by (rule split_runs_all_sep)
  moreover have "trim [] = []" by (simp add: trim_def)
  ultimately show ?thesis by (simp add: rx_tokens_def)
qed

lemma positive_integer_numeric: "positive_integer t \<Longrightarrow> \<not> isNaN (Number t)"
  by (simp add: positive_integer_def Number_digits isNaN_def)

section \<open>Prescription numbers of the refill form\<close>

text \<open>
  Claim C4 as stated fails: the tokens \<^verbatim>\<open>-5\<close>, \<^verbatim>\<open>0\<close> and \<^verbatim>\<open>1.5\<close> are no positive integers,
  and the validator reports no error for a field that holds them. The adapter passes
  them on as the numbers -5, 0 and 3/2.
\<close>

theorem numeric_tokens_counterexample:
  "map_of (Refill_validate sample_clock (sample_refill\<lparr>r_prescriptionNumbers := ''-5, 0, 1.5''\<rparr>))
     ''prescriptionNumbers'' = None
   \<and> rxNumbers (sample_refill\<lparr>r_prescriptionNumbers := ''-5, 0, 1.5''\<rparr>)
       = [Num (- 5), Num 0, Num (3 / 2)]"
proof -
  have s: "split_runs rx_sep [] ''-5, 0, 1.5'' = [''-5'', ''0'', ''1.5'']"
    by (simp add: rx_sep_def char_defs)
  have t: "trim ''-5, 0, 1.5'' = ''-5, 0, 1.5''" "trim ''-5'' = ''-5''" "trim ''0'' = ''0''"
    "trim ''1.5'' = ''1.5''"
    by (simp_all add: trim_def char_defs)
  have n: "Number ''-5'' = Num (- 5)" "Number ''0'' = Num 0" "Number ''1.5'' = Num (3 / 2)"
    by (simp_all add: number_defs char_defs)
  have "map_of (Refill_validate sample_clock
                  (sample_refill\<lparr>r_prescriptionNumbers := ''-5, 0, 1.5''\<rparr>))
          ''prescriptionNumbers'' = None"
    by (simp add: Refill_validate_def Let_def other_field Refill_prescriptionNumbers_def
          rx_tokens_def s t n isNaN_def
        del: split_runs.simps)
  moreover have "rxNumbers (sample_refill\<lparr>r_prescriptionNumbers := ''-5, 0, 1.5''\<rparr>)
                 = [Num (- 5), Num 0, Num (3 / 2)]"
    by (simp add: rxNumbers_def s t n isNaN_def del: split_runs.simps)
  ultimately show ?thesis by simp
qed

text \<open>
  Claim C4, amended. The tokens of the prescription numbers are the pieces between runs
  of commas and white space. Whenever one of them does not read as a number (\<^verbatim>\<open>Number\<close>
  gives \<^verbatim>\<open>NaN\<close>), the validator reports an error for the field. It accepts the field,
  when the field has a token and at most 1000 characters after trimming, exactly when
  every token reads as a number; positive integers in particular are accepted, and so
  are other numbers.
\<close>

theorem prescriptionNumbers_numeric:
  "(list_ex (\<lambda>t. isNaN (Number t)) (rx_tokens (r_prescriptionNumbers fd))
      \<longrightarrow> map_of (Refill_validate now fd) ''prescriptionNumbers'' \<noteq> None)
   \<and> (rx_tokens (r_prescriptionNumbers fd) \<noteq> []
        \<and> length (trim (r_prescriptionNumbers fd)) \<le> 1000
      \<longrightarrow> (map_of (Refill_validate now fd) ''prescriptionNumbers'' = None)
            = list_all (\<lambda>t. \<not> isNaN (Number t)) (rx_tokens (r_prescriptionNumbers fd)))
   \<and> (rx_tokens (r_prescriptionNumbers fd) \<noteq> []
        \<and> length (trim (r_prescriptionNumbers fd)) \<le> 1000
        \<and> list_all positive_integer (rx_tokens (r_prescriptionNumbers fd))
      \<longrightarrow> map_of (Refill_validate now fd) ''prescriptionNumbers'' = None)"
proof -
  let ?p = "r_prescriptionNumbers fd"
  have field: "map_of (Refill_validate now fd) ''prescriptionNumbers''
               = map_of (Refill_prescriptionNumbers ?p []) ''prescriptionNumbers''"
    by (simp add: Refill_validate_def Let_def other_field Refill_prescriptionNumbers_def
          map_of_set_err)
  have reported: "map_of (Refill_prescriptionNumbers ?p []) ''prescriptionNumbers'' \<noteq> None"
    if "list_ex (\<lambda>t. isNaN (Number t)) (rx_tokens ?p)"
    using that by (simp add: Refill_prescriptionNumbers_def)
  have decided: "(map_of (Refill_prescriptionNumbers ?p []) ''prescriptionNumbers'' = None)
                 = list_all (\<lambda>t. \<not> isNaN (Number t)) (rx_tokens ?p)"
    if "rx_tokens ?p \<noteq> []" "length (trim ?p) \<le> 1000"
  proof -
    from that(1) have "trim ?p \<noteq> []" using rx_tokens_blank by blast
    with that show ?thesis
      by (auto simp: Refill_prescriptionNumbers_def list_ex_iff list_all_iff)
  qed
  have numeric: "list_all (\<lambda>t. \<not> isNaN (Number t)) (rx_tokens ?p)"
    if "list_all positive_integer (rx_tokens ?p)"
    using that positive_integer_numeric by (auto simp: list_all_iff)
  from field reported decided numeric show ?thesis by auto
qed

theorem prescriptionNumbers_numeric_witness:
  "list_ex (\<lambda>t. isNaN (Number t)) (rx_tokens ''123, abc'')
   \<and> map_of (Refill_validate sample_clock (sample_refill\<lparr>r_prescriptionNumbers := ''123, abc''\<rparr>))
       ''prescriptionNumbers'' \<noteq> None
   \<and> rx_tokens ''123, 456 789'' \<noteq> [] \<and> length (trim ''123, 456 789'') \<le> 1000
   \<and> list_all positive_integer (rx_tokens ''123, 456 789'')
   \<and> list_all (\<lambda>t. \<not> isNaN (Number t)) (rx_tokens ''123, 456 789'')
   \<and> map_of (Refill_validate sample_clock sample_refill) ''prescriptionNumbers'' = None"
proof -
  have bad: "rx_tokens ''123, abc'' = [''123'', ''abc'']"
    by (simp add: rx_tokens_def bad_split trim_samples del: split_runs.simps)
  have nan: "list_ex (\<lambda>t. isNaN (Number t)) (rx_tokens ''123, abc'')"
    by (simp add: bad bad_number isNaN_def)
  have pos: "list_all positive_integer (rx_tokens ''123, 456 789'')"
    by (simp add: sample_tokens positive_integer_def digits_val_def char_defs)
  have len: "rx_tokens ''123, 456 789'' \<noteq> []" "length (trim ''123, 456 789'') \<le> 1000"
    by (simp_all add: sample_tokens trim_samples)
  have p: "r_prescriptionNumbers sample_refill = ''123, 456 789''"
    "r_prescriptionNumbers (sample_refill\<lparr>r_prescriptionNumbers := ''123, abc''\<rparr>) = ''123, abc''"
    by (simp_all add: sample_refill_def)
  have reported:
    "map_of (Refill_validate sample_clock (sample_refill\<lparr>r_prescriptionNumbers := ''123, abc''\<rparr>))
       ''prescriptionNumbers'' \<noteq> None"
    using prescriptionNumbers_numeric
            [of "sample_refill\<lparr>r_prescriptionNumbers := ''123, abc''\<rparr>" sample_clock] nan
    unfolding p by blast
  have accepted: "map_of (Refill_validate sample_clock sample_refill) ''prescriptionNumbers'' = None"
    using prescriptionNumbers_numeric [of sample_refill sample_clock] pos len
    unfolding p by blast
  have numeric: "list_all (\<lambda>t. \<not> isNaN (Number t)) (rx_tokens ''123, 456 789'')"
    using prescriptionNumbers_numeric [of sample_refill sample_clock] accepted len
    unfolding p by blast
  from nan reported len pos numeric accepted show ?thesis by simp
qed

end
